theory Spec2Isabelle
  imports Main "HOL-Library.Sublist"
begin

section \<open>JavaScript values\<close>

text \<open>
  The client is written in JavaScript, so its arguments are dynamically typed. The
  values the embedding covers are \<open>undefined\<close>, \<open>null\<close>, booleans, integer-valued
  numbers in the safe-integer range, strings, arrays and plain objects. A string is
  the byte sequence of its UTF-8 encoding (one \<open>char\<close> per byte), which is the form
  in which the query-string codec escapes it. An object is the list of its own
  enumerable properties in property order; all property names the client itself
  stores are ordinary names (never array indices), so a new property goes to the end
  of that order and a property that exists keeps its place.
\<close>

datatype jsval =
    JUndefined
  | JNull
  | JBool bool
  | JNum int
  | JStr string
  | JArr "jsval list"
  | JObj "(string \<times> jsval) list"

datatype js_error =
    TypeError string
  | SyntaxError string
  | Error string
  | TransportError string

subsection \<open>Number and string conversion\<close>

definition digit_char :: "nat \<Rightarrow> char" where
  "digit_char n = ''0123456789'' ! (n mod 10)"

function show_nat :: "nat \<Rightarrow> string" where
  "show_nat n = (if n < 10 then [digit_char n] else show_nat (n div 10) @ [digit_char n])"
  by pat_completeness auto
termination
  by (relation "measure (\<lambda>n. n)") auto

declare show_nat.simps [simp del]

definition show_int :: "int \<Rightarrow> string" where
  "show_int i = (if i < 0 then CHR ''-'' # show_nat (nat (- i)) else show_nat (nat i))"

fun join_with :: "string \<Rightarrow> string list \<Rightarrow> string" where
  "join_with sep [] = []"
| "join_with sep [x] = x"
| "join_with sep (x # y # ys) = x @ sep @ join_with sep (y # ys)"

text \<open>
  \<open>ToString\<close> is the conversion a template literal applies to an interpolated value.
  An array converts by joining its elements with a comma, where \<open>undefined\<close> and
  \<open>null\<close> elements give the empty string; a plain object converts to the fixed text
  of \<open>Object.prototype.toString\<close>.
\<close>

fun ToString :: "jsval \<Rightarrow> string" where
  "ToString JUndefined = ''undefined''"
| "ToString JNull = ''null''"
| "ToString (JBool b) = (if b then ''true'' else ''false'')"
| "ToString (JNum n) = show_int n"
| "ToString (JStr s) = s"
| "ToString (JArr xs) =
     join_with '',''
       (map (\<lambda>v. if v = JUndefined \<or> v = JNull then [] else ToString v) xs)"
| "ToString (JObj ps) = ''[object Object]''"

definition join_elem :: "jsval \<Rightarrow> string" where
  "join_elem v = (if v = JUndefined \<or> v = JNull then [] else ToString v)"

text \<open>\<open>Array.prototype.join\<close> with an explicit separator.\<close>

definition array_join :: "jsval list \<Rightarrow> string \<Rightarrow> string" where
  "array_join xs sep = join_with sep (map join_elem xs)"

text \<open>
  The values for which \<open>ToString\<close> is the conversion of the language. An object that
  has an own property \<open>toString\<close> converts through that property; no value of the
  embedding is a function, so the property is not callable, the inherited \<open>valueOf\<close>
  returns no primitive, and the conversion throws a \<open>TypeError\<close>. A number outside the
  safe-integer range is printed in exponent form from \<open>10^21\<close> on. An array converts
  its elements.
\<close>

fun converts :: "jsval \<Rightarrow> bool" where
  "converts (JNum n) = (- 9007199254740991 \<le> n \<and> n \<le> 9007199254740991)"
| "converts (JArr xs) = list_all converts xs"
| "converts (JObj ps) = (''toString'' \<notin> set (map fst ps))"
| "converts v = True"

text \<open>Truthiness, as tested by \<open>!x\<close>, and the loose comparison \<open>x == undefined\<close>.\<close>

fun truthy :: "jsval \<Rightarrow> bool" where
  "truthy JUndefined = False"
| "truthy JNull = False"
| "truthy (JBool b) = b"
| "truthy (JNum n) = (n \<noteq> 0)"
| "truthy (JStr s) = (s \<noteq> [])"
| "truthy (JArr xs) = True"
| "truthy (JObj ps) = True"

fun loosely_undefined :: "jsval \<Rightarrow> bool" where
  "loosely_undefined JUndefined = True"
| "loosely_undefined JNull = True"
| "loosely_undefined v = False"

subsection \<open>Property access\<close>

fun obj_get :: "(string \<times> jsval) list \<Rightarrow> string \<Rightarrow> jsval" where
  "obj_get [] k = JUndefined"
| "obj_get ((k', v) # ps) k = (if k' = k then v else obj_get ps k)"

fun obj_set :: "(string \<times> jsval) list \<Rightarrow> string \<Rightarrow> jsval \<Rightarrow> (string \<times> jsval) list" where
  "obj_set [] k v = [(k, v)]"
| "obj_set ((k', v') # ps) k v = (if k' = k then (k, v) # ps else (k', v') # obj_set ps k v)"

text \<open>
  Reading a property of \<open>undefined\<close> or \<open>null\<close> throws a \<open>TypeError\<close>. The names the
  client reads are never inherited ones and never \<open>length\<close> or an index, so a
  primitive or an array has none of them.
\<close>

fun get_prop :: "jsval \<Rightarrow> string \<Rightarrow> js_error + jsval" where
  "get_prop JUndefined k = Inl (TypeError ''Cannot read properties of undefined'')"
| "get_prop JNull k = Inl (TypeError ''Cannot read properties of null'')"
| "get_prop (JObj ps) k = Inr (obj_get ps k)"
| "get_prop v k = Inr JUndefined"

text \<open>
  The source file is in strict mode, where storing a property on a primitive throws
  as it does on \<open>undefined\<close> and \<open>null\<close>. A named property stored on an array is not
  represented: the array is returned as it was. No endpoint reads a property of its
  parameter argument after storing it unless the argument is a plain object, and an
  array is not a parameter mapping for the request builder.
\<close>

fun set_prop :: "jsval \<Rightarrow> string \<Rightarrow> jsval \<Rightarrow> js_error + jsval" where
  "set_prop JUndefined k v = Inl (TypeError ''Cannot set properties of undefined'')"
| "set_prop JNull k v = Inl (TypeError ''Cannot set properties of null'')"
| "set_prop (JObj ps) k v = Inr (JObj (obj_set ps k v))"
| "set_prop (JArr xs) k v = Inr (JArr xs)"
| "set_prop p k v = Inl (TypeError ''Cannot create property'')"

section \<open>Validation helpers\<close>

text \<open>
  The module \<open>helpers/utilities\<close> is only declared (\<open>utilities.d.ts\<close>), so its
  functions follow the specification, section 4.1: total type predicates, an
  empty-string check and a warning emitter.
\<close>

text \<open>Modelled from the spec: the type predicate for strings (section 4.1).\<close>

definition isString :: "jsval \<Rightarrow> bool" where
  "isString v = (case v of JStr s \<Rightarrow> True | _ \<Rightarrow> False)"

text \<open>Modelled from the spec: the type predicate for arrays (section 4.1).\<close>

definition isArray :: "jsval \<Rightarrow> bool" where
  "isArray v = (case v of JArr xs \<Rightarrow> True | _ \<Rightarrow> False)"

text \<open>
  Modelled from the spec: the type predicate for objects (section 4.1); section 4.3
  has every non-object parameter argument treated as absent, so \<open>null\<close> and arrays are
  no objects.
\<close>

definition isObject :: "jsval \<Rightarrow> bool" where
  "isObject v = (case v of JObj ps \<Rightarrow> True | _ \<Rightarrow> False)"

text \<open>Modelled from the spec: the type predicate for numbers (section 4.1).\<close>

definition isNumber :: "jsval \<Rightarrow> bool" where
  "isNumber v = (case v of JNum n \<Rightarrow> True | _ \<Rightarrow> False)"

text \<open>
  Modelled from the spec: the text that trimming leaves empty (section 4.1, "zero-length
  trimmed string"). White space is what \<open>String.prototype.trim\<close> removes, read off the
  UTF-8 bytes: the ASCII controls TAB to CR and the space, U+00A0, U+1680, U+2000 to
  U+200A, U+2028, U+2029, U+202F, U+205F, U+3000 and U+FEFF.
\<close>

fun all_space :: "nat list \<Rightarrow> bool" where
  "all_space [] = True"
| "all_space [a] = ((9 \<le> a \<and> a \<le> 13) \<or> a = 32)"
| "all_space [a, b] =
     (if (9 \<le> a \<and> a \<le> 13) \<or> a = 32 then all_space [b] else a = 194 \<and> b = 160)"
| "all_space (a # b # c # r) =
     (if (9 \<le> a \<and> a \<le> 13) \<or> a = 32 then all_space (b # c # r)
      else if a = 194 \<and> b = 160 then all_space (c # r)
      else if (a = 225 \<and> b = 154 \<and> c = 128)
            \<or> (a = 226 \<and> b = 128 \<and> ((128 \<le> c \<and> c \<le> 138) \<or> c = 168 \<or> c = 169 \<or> c = 175))
            \<or> (a = 226 \<and> b = 129 \<and> c = 159)
            \<or> (a = 227 \<and> b = 128 \<and> c = 128)
            \<or> (a = 239 \<and> b = 187 \<and> c = 191)
           then all_space r
      else False)"

text \<open>
  Modelled from the spec: \<open>isStringEmpty\<close> of \<open>helpers/utilities\<close>, which is true
  for \<open>null\<close>, for \<open>undefined\<close> and for a string whose trimmed text has length zero.
\<close>

definition isStringEmpty :: "jsval \<Rightarrow> bool" where
  "isStringEmpty v =
     (case v of
        JUndefined \<Rightarrow> True
      | JNull \<Rightarrow> True
      | JStr s \<Rightarrow> all_space (map of_char s)
      | _ \<Rightarrow> False)"

text \<open>
  The diagnostics emitted so far are kept as a list; a computation is the list of its
  diagnostics together with either the error it threw or its value.
\<close>

type_synonym warning = "string \<times> string"

type_synonym 'a comp = "warning list \<times> (js_error + 'a)"

definition ret :: "'a \<Rightarrow> 'a comp" where
  "ret a = ([], Inr a)"

definition lift :: "js_error + 'a \<Rightarrow> 'a comp" where
  "lift r = ([], r)"

text \<open>
  Modelled from the spec: \<open>_WARN_\<close> of \<open>helpers/utilities\<close> writes a diagnostic made
  of a title and a detail and lets execution continue (section 4.1); its return value
  is used by no caller.
\<close>

definition WARN :: "string \<Rightarrow> string \<Rightarrow> unit comp" where
  "WARN title detail = ([(title, detail)], Inr ())"

definition and_then :: "'a comp \<Rightarrow> ('a \<Rightarrow> 'b comp) \<Rightarrow> 'b comp" where
  "and_then m f =
     (case m of
        (w, Inl e) \<Rightarrow> (w, Inl e)
      | (w, Inr a) \<Rightarrow> (case f a of (w', r) \<Rightarrow> (w @ w', r)))"

definition warn_if :: "bool \<Rightarrow> string \<Rightarrow> string \<Rightarrow> unit comp" where
  "warn_if b title detail = (if b then WARN title detail else ret ())"

section \<open>The query-string codec\<close>

text \<open>
  \<open>querystring.stringify\<close> and \<open>querystring.escape\<close> belong to the Node.js runtime.
  Letters, digits and the marks \<open>- _ . ! ~ * ' ( )\<close> are passed through; every other
  byte of the UTF-8 text becomes \<open>%XX\<close> with upper-case hexadecimal digits. A string,
  a number or a boolean serialises to its text, any other value to the empty string;
  an array value gives one field for each element and none when it is empty.
\<close>

definition unreserved :: "char \<Rightarrow> bool" where
  "unreserved c =
     (let n = (of_char c :: nat) in
        (48 \<le> n \<and> n \<le> 57) \<or> (65 \<le> n \<and> n \<le> 90) \<or> (97 \<le> n \<and> n \<le> 122)
        \<or> n = 33 \<or> (39 \<le> n \<and> n \<le> 42) \<or> n = 45 \<or> n = 46 \<or> n = 95 \<or> n = 126)"

definition hex_char :: "nat \<Rightarrow> char" where
  "hex_char n = ''0123456789ABCDEF'' ! (n mod 16)"

definition esc_byte :: "char \<Rightarrow> string" where
  "esc_byte c =
     (if unreserved c then [c]
      else [CHR ''%'', hex_char ((of_char c :: nat) div 16), hex_char (of_char c :: nat)])"

definition qsEscape :: "string \<Rightarrow> string" where
  "qsEscape s = concat (map esc_byte s)"

fun encodeStringified :: "jsval \<Rightarrow> string" where
  "encodeStringified (JStr s) = qsEscape s"
| "encodeStringified (JNum n) = show_int n"
| "encodeStringified (JBool b) = (if b then ''true'' else ''false'')"
| "encodeStringified v = []"

definition field :: "string \<Rightarrow> jsval \<Rightarrow> string" where
  "field k v = qsEscape k @ ''='' @ encodeStringified v"

fun fields_of :: "string \<times> jsval \<Rightarrow> string list" where
  "fields_of (k, JArr xs) = map (field k) xs"
| "fields_of (k, v) = [field k v]"

fun querystring_stringify :: "jsval \<Rightarrow> string" where
  "querystring_stringify (JObj ps) = join_with ''&'' (concat (map fields_of ps))"
| "querystring_stringify (JArr xs) =
     join_with ''&'' (concat (map fields_of (zip (map show_nat [0 ..< length xs]) xs)))"
| "querystring_stringify v = []"

section \<open>The client\<close>

definition HOST :: string where
  "HOST = ''api.coingecko.com''"

definition PRO_HOST :: string where
  "PRO_HOST = ''pro-api.coingecko.com''"

definition API_VERSION :: string where
  "API_VERSION = ''3''"

definition TIMEOUT :: nat where
  "TIMEOUT = 30000"

text \<open>
  An instance holds \<open>_apiKey\<close>. The class property \<open>CoinGecko.TIMEOUT\<close>, which the
  module sets to \<open>TIMEOUT\<close> and a program may assign, is read through the instance
  here. A constructor parameter with a default takes the default when the argument is
  left out and also when it is \<open>undefined\<close>.
\<close>

record CoinGecko =
  apiKey :: jsval
  static_TIMEOUT :: nat

definition default_arg :: "jsval \<Rightarrow> jsval \<Rightarrow> jsval" where
  "default_arg v d = (if v = JUndefined then d else v)"

definition constructor :: "jsval \<Rightarrow> CoinGecko" where
  "constructor k = \<lparr>apiKey = default_arg k JNull, static_TIMEOUT = TIMEOUT\<rparr>"

record request_options =
  path :: string
  http_method :: string
  host :: string
  port :: nat
  timeout :: nat

definition shouldCallPro :: "CoinGecko \<Rightarrow> bool" where
  "shouldCallPro this = (apiKey this \<noteq> JNull)"

definition insertApiKeyIntoParams :: "CoinGecko \<Rightarrow> jsval \<Rightarrow> jsval" where
  "insertApiKeyIntoParams this params =
     (if isObject params \<and> shouldCallPro this
      then (case params of
              JObj ps \<Rightarrow> JObj (obj_set ps ''x_cg_pro_api_key'' (apiKey this))
            | _ \<Rightarrow> params)
      else params)"

definition resolveHost :: "CoinGecko \<Rightarrow> string" where
  "resolveHost this = (if shouldCallPro this then PRO_HOST else HOST)"

text \<open>
  The query text is \<open>None\<close> where the source sets \<open>params = undefined\<close>. An empty
  string is not \<open>undefined\<close>, so a mapping that serialises to the empty string still
  takes the branch that appends the question mark.
\<close>

definition query_of :: "CoinGecko \<Rightarrow> jsval \<Rightarrow> string option" where
  "query_of this params =
     (let params = insertApiKeyIntoParams this params in
        if isObject params then Some (querystring_stringify params) else None)"

definition buildRequestOptions :: "CoinGecko \<Rightarrow> string \<Rightarrow> jsval \<Rightarrow> request_options" where
  "buildRequestOptions this p params =
     \<lparr>path = (case query_of this params of
                None \<Rightarrow> ''/api/v'' @ API_VERSION @ p
              | Some q \<Rightarrow> ''/api/v'' @ API_VERSION @ p @ ''?'' @ q),
      http_method = ''GET'',
      host = resolveHost this,
      port = 443,
      timeout = static_TIMEOUT this\<rparr>"

section \<open>The transport\<close>

text \<open>
  The \<open>body\<close> variable of the response callback holds the received chunks, then the
  decoded text, then the parsed value. \<open>JSON.parse\<close> belongs to the runtime and is a
  parameter of the model: it gives the parsed value or the error it throws.
\<close>

datatype 'j body = Chunks "string list" | Text string | Parsed 'j

record 'j envelope =
  success :: bool
  message :: string
  code :: int
  data :: "'j body"

datatype 'a promise = Pending | Fulfilled 'a | Rejected js_error

text \<open>A promise settles once: \<open>resolve\<close> and \<open>reject\<close> on a settled promise do nothing.\<close>

fun resolve :: "'a \<Rightarrow> 'a promise \<Rightarrow> 'a promise" where
  "resolve v Pending = Fulfilled v"
| "resolve v p = p"

fun reject :: "js_error \<Rightarrow> 'a promise \<Rightarrow> 'a promise" where
  "reject e Pending = Rejected e"
| "reject e p = p"

record 'j response =
  statusCode :: int
  statusMessage :: string
  body :: "'j body"

record 'j req_state =
  options :: request_options
  promise :: "'j envelope promise"
  aborted :: bool
  res :: "'j response option"
  emitted :: "warning list"

text \<open>
  \<open>https.request\<close> belongs to the runtime. It refuses a path that has a character
  outside U+0021 to U+00FF: it throws a \<open>TypeError\<close> (\<open>ERR_UNESCAPED_CHARACTERS\<close>)
  and creates no request. In the UTF-8 text of the path such a character shows as a
  byte below 33 (a control character or the space) or as a lead byte from 196 on.
\<close>

definition invalid_path :: "string \<Rightarrow> bool" where
  "invalid_path p = list_ex (\<lambda>c. (of_char c :: nat) < 33 \<or> 196 \<le> (of_char c :: nat)) p"

definition https_request :: "request_options \<Rightarrow> js_error + unit" where
  "https_request opts =
     (if invalid_path (path opts)
      then Inl (TypeError ''Request path contains unescaped characters'')
      else Inr ())"

text \<open>
  The state in which \<open>_request\<close> returns once \<open>https.request\<close> has created the
  request: the request is sent and nothing has arrived.
\<close>

definition request :: "CoinGecko \<Rightarrow> string \<Rightarrow> jsval \<Rightarrow> 'j req_state" where
  "request this p params =
     \<lparr>options = buildRequestOptions this p params,
      promise = Pending,
      aborted = False,
      res = None,
      emitted = []\<rparr>"

text \<open>
  \<open>_request\<close> as the endpoints call it. The executor of the promise calls
  \<open>https.request\<close> first, and what the executor throws rejects the promise: then
  there is no request, nothing is sent and no event will arrive.
\<close>

definition request_call :: "CoinGecko \<Rightarrow> string \<Rightarrow> jsval \<Rightarrow> 'j req_state" where
  "request_call this p params =
     (case https_request (buildRequestOptions this p params) of
        Inl e \<Rightarrow> (request this p params)\<lparr>promise := reject e Pending\<rparr>
      | Inr _ \<Rightarrow> request this p params)"

text \<open>
  What the runtime then delivers: the response head, a chunk of the body, the end of
  the body, a transport error, or the expiry of the timeout of the options.
\<close>

datatype event =
    OnResponse int string
  | OnData string
  | OnEnd
  | OnError js_error
  | OnTimeout

definition html_warning :: warning where
  "html_warning =
     (''Invalid request'',
      ''There was a problem with your request. The parameter(s) you gave are missing or incorrect.'')"

definition throttled_warning :: warning where
  "throttled_warning = (''Throttled request'', ''There was a problem with request limit.'')"

definition body_warnings :: "string \<Rightarrow> warning list" where
  "body_warnings text =
     (if prefix ''<!DOCTYPE html>'' text then [html_warning]
      else if prefix ''Throttled'' text then [throttled_warning]
      else [])"

definition timeout_message :: "CoinGecko \<Rightarrow> string" where
  "timeout_message this =
     ''CoinGecko API request timed out. Current timeout is: ''
       @ show_nat (static_TIMEOUT this) @ '' milliseconds''"

text \<open>
  The handler of \<open>end\<close> runs the \<open>try\<close> block, whose \<open>catch\<close> rejects with the parse
  error, and then calls \<open>resolve\<close> in either case. The runtime emits \<open>end\<close> once and
  no \<open>data\<close> after it, and neither before the response head; such events leave the
  state as it is.
\<close>

definition on_end :: "(string \<Rightarrow> js_error + 'j) \<Rightarrow> 'j req_state \<Rightarrow> 'j req_state" where
  "on_end parse s =
     (case res s of
        None \<Rightarrow> s
      | Some r \<Rightarrow>
          (case body r of
             Chunks cs \<Rightarrow>
               (let text = concat cs;
                    w = body_warnings text;
                    (b, p) = (case parse text of
                                Inl e \<Rightarrow> (Text text, reject e (promise s))
                              | Inr v \<Rightarrow> (Parsed v, promise s))
                in s\<lparr>res := Some (r\<lparr>body := b\<rparr>),
                     emitted := emitted s @ w,
                     promise :=
                       resolve
                         \<lparr>success = \<not> (statusCode r < 200 \<or> statusCode r \<ge> 300),
                          message = statusMessage r,
                          code = statusCode r,
                          data = b\<rparr> p\<rparr>)
           | _ \<Rightarrow> s))"

fun step :: "CoinGecko \<Rightarrow> (string \<Rightarrow> js_error + 'j) \<Rightarrow> 'j req_state \<Rightarrow> event \<Rightarrow> 'j req_state" where
  "step this parse s (OnResponse c m) =
     s\<lparr>res := Some \<lparr>statusCode = c, statusMessage = m, body = Chunks []\<rparr>\<rparr>"
| "step this parse s (OnData chunk) =
     (case res s of
        None \<Rightarrow> s
      | Some r \<Rightarrow>
          (case body r of
             Chunks cs \<Rightarrow> s\<lparr>res := Some (r\<lparr>body := Chunks (cs @ [chunk])\<rparr>)\<rparr>
           | _ \<Rightarrow> s))"
| "step this parse s OnEnd = on_end parse s"
| "step this parse s (OnError e) = s\<lparr>promise := reject e (promise s)\<rparr>"
| "step this parse s OnTimeout =
     s\<lparr>aborted := True, promise := reject (Error (timeout_message this)) (promise s)\<rparr>"

definition deliver ::
  "CoinGecko \<Rightarrow> (string \<Rightarrow> js_error + 'j) \<Rightarrow> 'j req_state \<Rightarrow> event list \<Rightarrow> 'j req_state" where
  "deliver this parse s evs = foldl (step this parse) s evs"

section \<open>The endpoint catalog\<close>

text \<open>The statements that the endpoints repeat, each as the source writes it.\<close>

definition require_id :: "string \<Rightarrow> jsval \<Rightarrow> unit comp" where
  "require_id name v =
     warn_if (\<not> isString v \<or> isStringEmpty v) ''Invalid parameter''
       (name @ '' must be of type: String and greater than 0 characters.'')"

definition require_object :: "jsval \<Rightarrow> unit comp" where
  "require_object params =
     warn_if (\<not> isObject params) ''Invalid parameter'' ''params must be of type: Object''"

definition default_usd :: "string \<Rightarrow> jsval \<Rightarrow> jsval comp" where
  "default_usd k params =
     and_then (lift (get_prop params k)) (\<lambda>v.
       if \<not> isString v \<or> isStringEmpty v then lift (set_prop params k (JStr ''usd''))
       else ret params)"

definition join_array :: "string \<Rightarrow> jsval \<Rightarrow> jsval comp" where
  "join_array k params =
     and_then (lift (get_prop params k)) (\<lambda>v.
       if isArray v
       then (case v of
               JArr xs \<Rightarrow> lift (set_prop params k (JStr (array_join xs '','')))
             | _ \<Rightarrow> ret params)
       else ret params)"

definition default_days :: "jsval \<Rightarrow> jsval comp" where
  "default_days params =
     and_then (lift (get_prop params ''days'')) (\<lambda>v.
       if loosely_undefined v then lift (set_prop params ''days'' (JNum 1))
       else ret params)"

definition require_number :: "string \<Rightarrow> jsval \<Rightarrow> unit comp" where
  "require_number k params =
     and_then (lift (get_prop params k)) (\<lambda>v.
       warn_if (\<not> isNumber v) ''Missing parameter''
         (''params must include `'' @ k @ ''` and be a UNIX timestamp.''))"

definition require_present :: "string \<Rightarrow> jsval \<Rightarrow> unit comp" where
  "require_present k params =
     and_then (lift (get_prop params k)) (\<lambda>v.
       warn_if (\<not> truthy v) ''Missing parameter''
         (''params must include `'' @ k @ ''` and be a of type: String or Object''))"

definition require_date :: "jsval \<Rightarrow> unit comp" where
  "require_date params =
     and_then (lift (get_prop params ''date'')) (\<lambda>v.
       warn_if (\<not> isString v \<or> isStringEmpty v) ''Missing parameter''
         ''params must include `date` and be a string in format: `dd-mm-yyyy`'')"

definition ping :: "CoinGecko \<Rightarrow> 'j req_state comp" where
  "ping this = ret (request_call this ''/ping'' JUndefined)"

definition global :: "CoinGecko \<Rightarrow> 'j req_state comp" where
  "global this = ret (request_call this ''/global'' JUndefined)"

subsection \<open>coins\<close>

definition coins_all :: "CoinGecko \<Rightarrow> jsval \<Rightarrow> 'j req_state comp" where
  "coins_all this params0 =
     (let params = default_arg params0 (JObj []) in
        ret (request_call this ''/coins'' params))"

definition coins_list :: "CoinGecko \<Rightarrow> 'j req_state comp" where
  "coins_list this = ret (request_call this ''/coins/list'' JUndefined)"


definition coins_fetch :: "CoinGecko \<Rightarrow> jsval \<Rightarrow> jsval \<Rightarrow> 'j req_state comp" where
  "coins_fetch this coinId params0 =
     (let params = default_arg params0 (JObj []) in
        and_then (require_id ''coinId'' coinId) (\<lambda>_.
        ret (request_call this (''/coins/'' @ ToString coinId) params)))"

definition coins_fetchTickers :: "CoinGecko \<Rightarrow> jsval \<Rightarrow> jsval \<Rightarrow> 'j req_state comp" where
  "coins_fetchTickers this coinId params0 =
     (let params = default_arg params0 (JObj []) in
        and_then (require_id ''coinId'' coinId) (\<lambda>_.
        and_then (join_array ''exchange_ids'' params) (\<lambda>params.
        ret (request_call this (''/coins/'' @ ToString coinId @ ''/tickers'') params))))"

definition coins_fetchHistory :: "CoinGecko \<Rightarrow> jsval \<Rightarrow> jsval \<Rightarrow> 'j req_state comp" where
  "coins_fetchHistory this coinId params0 =
     (let params = default_arg params0 (JObj []) in
        and_then (require_id ''coinId'' coinId) (\<lambda>_.
        and_then (require_object params) (\<lambda>_.
        and_then (require_date params) (\<lambda>_.
        ret (request_call this (''/coins/'' @ ToString coinId @ ''/history'') params)))))"

definition coins_fetchMarketChart :: "CoinGecko \<Rightarrow> jsval \<Rightarrow> jsval \<Rightarrow> 'j req_state comp" where
  "coins_fetchMarketChart this coinId params0 =
     (let params = default_arg params0 (JObj []) in
        and_then (require_id ''coinId'' coinId) (\<lambda>_.
        and_then (require_object params) (\<lambda>_.
        and_then (default_usd ''vs_currency'' params) (\<lambda>params.
        and_then (default_days params) (\<lambda>params.
        ret (request_call this (''/coins/'' @ ToString coinId @ ''/market_chart'') params))))))"

definition coins_fetchMarketChartRange :: "CoinGecko \<Rightarrow> jsval \<Rightarrow> jsval \<Rightarrow> 'j req_state comp" where
  "coins_fetchMarketChartRange this coinId params0 =
     (let params = default_arg params0 (JObj []) in
        and_then (require_id ''coinId'' coinId) (\<lambda>_.
        and_then (require_object params) (\<lambda>_.
        and_then (default_usd ''vs_currency'' params) (\<lambda>params.
        and_then (require_number ''from'' params) (\<lambda>_.
        and_then (require_number ''to'' params) (\<lambda>_.
        ret (request_call this (''/coins/'' @ ToString coinId @ ''/market_chart/range'') params)))))))"

definition coins_fetchCoinContractInfo :: "CoinGecko \<Rightarrow> jsval \<Rightarrow> jsval \<Rightarrow> 'j req_state comp" where
  "coins_fetchCoinContractInfo this contractAddress assetPlatform0 =
     (let assetPlatform = default_arg assetPlatform0 (JStr ''ethereum'') in
        and_then (require_id ''contractAddress'' contractAddress) (\<lambda>_.
        and_then (require_id ''assetPlatform'' assetPlatform) (\<lambda>_.
        ret (request_call this
               (''/coins/'' @ ToString assetPlatform @ ''/contract/'' @ ToString contractAddress)
               JUndefined))))"

definition coins_fetchCoinContractMarketChart ::
  "CoinGecko \<Rightarrow> jsval \<Rightarrow> jsval \<Rightarrow> jsval \<Rightarrow> 'j req_state comp" where
  "coins_fetchCoinContractMarketChart this contractAddress assetPlatform0 params0 =
     (let assetPlatform = default_arg assetPlatform0 (JStr ''ethereum'');
          params = default_arg params0 (JObj []) in
        and_then (require_id ''contractAddress'' contractAddress) (\<lambda>_.
        and_then (require_id ''assetPlatform'' assetPlatform) (\<lambda>_.
        and_then (require_object params) (\<lambda>_.
        and_then (default_usd ''vs_currency'' params) (\<lambda>params.
        and_then (default_days params) (\<lambda>params.
        ret (request_call this
               (''/coins/'' @ ToString assetPlatform @ ''/contract/'' @ ToString contractAddress
                  @ ''/market_chart'')
               params)))))))"

definition coins_fetchCoinContractMarketChartRange ::
  "CoinGecko \<Rightarrow> jsval \<Rightarrow> jsval \<Rightarrow> jsval \<Rightarrow> 'j req_state comp" where
  "coins_fetchCoinContractMarketChartRange this contractAddress assetPlatform0 params0 =
     (let assetPlatform = default_arg assetPlatform0 (JStr ''ethereum'');
          params = default_arg params0 (JObj []) in
        and_then (require_id ''contractAddress'' contractAddress) (\<lambda>_.
        and_then (require_id ''assetPlatform'' assetPlatform) (\<lambda>_.
        and_then (require_object params) (\<lambda>_.
        and_then (default_usd ''vs_currency'' params) (\<lambda>params.
        and_then (default_days params) (\<lambda>params.
        ret (request_call this
               (''/coins/'' @ ToString assetPlatform @ ''/contract/'' @ ToString contractAddress
                  @ ''/market_chart/range'')
               params)))))))"

subsection \<open>exchanges and exchange rates\<close>

definition exchanges_all :: "CoinGecko \<Rightarrow> 'j req_state comp" where
  "exchanges_all this = ret (request_call this ''/exchanges'' JUndefined)"

definition exchanges_list :: "CoinGecko \<Rightarrow> 'j req_state comp" where
  "exchanges_list this = ret (request_call this ''/exchanges/list'' JUndefined)"

definition exchanges_fetch :: "CoinGecko \<Rightarrow> jsval \<Rightarrow> 'j req_state comp" where
  "exchanges_fetch this exchangeId =
     and_then (require_id ''exchangeId'' exchangeId) (\<lambda>_.
     ret (request_call this (''/exchanges/'' @ ToString exchangeId) JUndefined))"

definition exchanges_fetchTickers :: "CoinGecko \<Rightarrow> jsval \<Rightarrow> jsval \<Rightarrow> 'j req_state comp" where
  "exchanges_fetchTickers this exchangeId params0 =
     (let params = default_arg params0 (JObj []) in
        and_then (require_id ''exchangeId'' exchangeId) (\<lambda>_.
        and_then (join_array ''coin_ids'' params) (\<lambda>params.
        ret (request_call this (''/exchanges/'' @ ToString exchangeId @ ''/tickers'') params))))"

definition exchanges_fetchVolumeChart :: "CoinGecko \<Rightarrow> jsval \<Rightarrow> jsval \<Rightarrow> 'j req_state comp" where
  "exchanges_fetchVolumeChart this exchangeId params0 =
     (let params = default_arg params0 (JObj []) in
        and_then (require_id ''exchangeId'' exchangeId) (\<lambda>_.
        ret (request_call this (''/exchanges/'' @ ToString exchangeId @ ''/volume_chart'') params)))"

definition exchangeRates_all :: "CoinGecko \<Rightarrow> 'j req_state comp" where
  "exchangeRates_all this = ret (request_call this ''/exchange_rates'' JUndefined)"

subsection \<open>simple\<close>

definition simple_price :: "CoinGecko \<Rightarrow> jsval \<Rightarrow> 'j req_state comp" where
  "simple_price this params0 =
     (let params = default_arg params0 (JObj []) in
        and_then (require_object params) (\<lambda>_.
        and_then (join_array ''vs_currencies'' params) (\<lambda>params.
        and_then (default_usd ''vs_currencies'' params) (\<lambda>params.
        and_then (join_array ''ids'' params) (\<lambda>params.
        and_then (lift (get_prop params ''ids'')) (\<lambda>v.
        and_then (warn_if (\<not> isString v \<or> isStringEmpty v) ''Invalid parameter''
                    ''params.ids must be of type: String or Array and greater than 0 characters.'') (\<lambda>_.
        ret (request_call this ''/simple/price'' params))))))))"

definition simple_supportedVsCurrencies :: "CoinGecko \<Rightarrow> 'j req_state comp" where
  "simple_supportedVsCurrencies this =
     ret (request_call this ''/simple/supported_vs_currencies'' JUndefined)"

definition simple_fetchTokenPrice :: "CoinGecko \<Rightarrow> jsval \<Rightarrow> jsval \<Rightarrow> 'j req_state comp" where
  "simple_fetchTokenPrice this params0 assetPlatform0 =
     (let params = default_arg params0 (JObj []);
          assetPlatform = default_arg assetPlatform0 (JStr ''ethereum'') in
        and_then (require_object params) (\<lambda>_.
        and_then (require_id ''assetPlatform'' assetPlatform) (\<lambda>_.
        and_then (require_present ''contract_addresses'' params) (\<lambda>_.
        and_then (require_present ''vs_currencies'' params) (\<lambda>_.
        and_then (join_array ''contract_addresses'' params) (\<lambda>params.
        and_then (join_array ''vs_currencies'' params) (\<lambda>params.
        ret (request_call this (''/simple/token_price/'' @ ToString assetPlatform) params))))))))"

subsection \<open>asset platforms, indexes and derivatives\<close>

definition assetPlatforms_all :: "CoinGecko \<Rightarrow> jsval \<Rightarrow> 'j req_state comp" where
  "assetPlatforms_all this params0 =
     (let params = default_arg params0 (JObj []) in
        ret (request_call this ''/asset_platforms'' params))"

definition indexes_all :: "CoinGecko \<Rightarrow> jsval \<Rightarrow> 'j req_state comp" where
  "indexes_all this params0 =
     (let params = default_arg params0 (JObj []) in
        ret (request_call this ''/indexes'' params))"

definition indexes_fetch :: "CoinGecko \<Rightarrow> jsval \<Rightarrow> jsval \<Rightarrow> 'j req_state comp" where
  "indexes_fetch this marketId indexId =
     and_then (require_id ''marketId'' marketId) (\<lambda>_.
     and_then (require_id ''indexId'' indexId) (\<lambda>_.
     ret (request_call this (''/indexes/'' @ ToString marketId @ ''/'' @ ToString indexId) JUndefined)))"

definition indexes_list :: "CoinGecko \<Rightarrow> 'j req_state comp" where
  "indexes_list this = ret (request_call this ''/indexes/list'' JUndefined)"

definition derivatives_fetchTickers :: "CoinGecko \<Rightarrow> 'j req_state comp" where
  "derivatives_fetchTickers this = ret (request_call this ''/derivatives'' JUndefined)"

definition derivatives_allExchanges :: "CoinGecko \<Rightarrow> jsval \<Rightarrow> 'j req_state comp" where
  "derivatives_allExchanges this params0 =
     (let params = default_arg params0 (JObj []) in
        ret (request_call this ''/derivatives/exchanges'' params))"

definition derivatives_fetchExchange :: "CoinGecko \<Rightarrow> jsval \<Rightarrow> jsval \<Rightarrow> 'j req_state comp" where
  "derivatives_fetchExchange this exchangeId params0 =
     (let params = default_arg params0 (JObj []) in
        and_then (require_id ''exchangeId'' exchangeId) (\<lambda>_.
        ret (request_call this (''/derivatives/exchanges/'' @ ToString exchangeId) params)))"

definition derivatives_listExchanges :: "CoinGecko \<Rightarrow> 'j req_state comp" where
  "derivatives_listExchanges this = ret (request_call this ''/derivatives/exchanges/list'' JUndefined)"

section \<open>An instance of the parser\<close>

text \<open>
  The theorems hold for every parser. Where one is needed at a concrete input, this
  one accepts the text of the empty object and rejects every other text.
\<close>

definition parse_braces :: "string \<Rightarrow> js_error + jsval" where
  "parse_braces s = (if s = ''{}'' then Inr (JObj []) else Inl (SyntaxError ''Unexpected token''))"

text \<open>What claim C1 asks of a promise: if it is fulfilled, the flag of its envelope fits the code.\<close>

definition flag_fits :: "'j envelope promise \<Rightarrow> bool" where
  "flag_fits p =
     (case p of
        Fulfilled env \<Rightarrow> success env = (200 \<le> code env \<and> code env < 300)
      | _ \<Rightarrow> True)"

section \<open>Reading a query string\<close>

text \<open>
  What the receiver of a request reads from its query string: the text is cut at
  every \<open>&\<close>, each field at its first \<open>=\<close>, and both parts are percent-decoded.
  \<open>query_value\<close> is the value of the first field with a given name.
  \<open>stringifyPrimitive\<close> is the text that the codec escapes for a value, and
  \<open>pairs_of\<close> lists the names and texts that one property contributes.
\<close>

fun split_on :: "char \<Rightarrow> string \<Rightarrow> string list" where
  "split_on c [] = [[]]"
| "split_on c (x # xs) =
     (if x = c then [] # split_on c xs
      else (case split_on c xs of y # ys \<Rightarrow> (x # y) # ys | [] \<Rightarrow> [[x]]))"

definition hex_val :: "char \<Rightarrow> nat option" where
  "hex_val c =
     (let n = (of_char c :: nat) in
        if 48 \<le> n \<and> n \<le> 57 then Some (n - 48)
        else if 65 \<le> n \<and> n \<le> 70 then Some (n - 55)
        else if 97 \<le> n \<and> n \<le> 102 then Some (n - 87)
        else None)"

fun qsUnescape :: "string \<Rightarrow> string" where
  "qsUnescape (a # b # c # r) =
     (if a = CHR ''%''
      then (case (hex_val b, hex_val c) of
              (Some h, Some l) \<Rightarrow> char_of (16 * h + l) # qsUnescape r
            | _ \<Rightarrow> a # qsUnescape (b # c # r))
      else a # qsUnescape (b # c # r))"
| "qsUnescape s = s"

definition read_field :: "string \<Rightarrow> string \<times> string" where
  "read_field f =
     (qsUnescape (takeWhile (\<lambda>c. c \<noteq> CHR ''='') f),
      qsUnescape (drop 1 (dropWhile (\<lambda>c. c \<noteq> CHR ''='') f)))"

definition query_params :: "string \<Rightarrow> (string \<times> string) list" where
  "query_params q = (if q = [] then [] else map read_field (split_on CHR ''&'' q))"

definition query_value :: "string \<Rightarrow> string \<Rightarrow> string option" where
  "query_value q k = map_of (query_params q) k"

fun stringifyPrimitive :: "jsval \<Rightarrow> string" where
  "stringifyPrimitive (JStr s) = s"
| "stringifyPrimitive (JNum n) = show_int n"
| "stringifyPrimitive (JBool b) = (if b then ''true'' else ''false'')"
| "stringifyPrimitive v = []"

fun pairs_of :: "string \<times> jsval \<Rightarrow> (string \<times> string) list" where
  "pairs_of (k, JArr xs) = map (\<lambda>v. (k, stringifyPrimitive v)) xs"
| "pairs_of (k, v) = [(k, stringifyPrimitive v)]"

section \<open>What an endpoint call issues\<close>

text \<open>
  The options with which a call reached \<open>_request\<close>, or nothing when the call threw
  before that. Whether the runtime accepted them is in the promise of the state.
\<close>

definition issued :: "'j req_state comp \<Rightarrow> request_options option" where
  "issued c = (case snd c of Inl e \<Rightarrow> None | Inr s \<Rightarrow> Some (options s))"

text \<open>
  \<open>sends c pth k v\<close>: the call built a request whose path is the versioned \<open>pth\<close>,
  a question mark and a query string in which the receiver reads \<open>v\<close> as the value
  of the parameter \<open>k\<close>.
\<close>

definition sends :: "'j req_state comp \<Rightarrow> string \<Rightarrow> string \<Rightarrow> string \<Rightarrow> bool" where
  "sends c pth k v =
     (case issued c of
        None \<Rightarrow> False
      | Some opts \<Rightarrow>
          prefix (''/api/v3'' @ pth @ ''?'') (path opts)
          \<and> query_value (drop (length (''/api/v3'' @ pth @ ''?'')) (path opts)) k = Some v)"

text \<open>The warning that every endpoint emits for an identifier that fails its check.\<close>

definition id_warning :: "string \<Rightarrow> warning" where
  "id_warning name =
     (''Invalid parameter'', name @ '' must be of type: String and greater than 0 characters.'')"

text \<open>
  \<open>issues_at c pth\<close>: the call reached \<open>_request\<close>, and the path of its options
  begins with the versioned \<open>pth\<close>.
\<close>

definition issues_at :: "'j req_state comp \<Rightarrow> string \<Rightarrow> bool" where
  "issues_at c pth =
     (case issued c of
        None \<Rightarrow> False
      | Some opts \<Rightarrow> prefix (''/api/v3'' @ pth) (path opts))"

text \<open>
  \<open>sent_at c pth\<close>: the call returned a pending promise, so its request was created
  and sent, on a path that begins with the versioned \<open>pth\<close>. \<open>refused_at c pth\<close>: the
  call returned a promise that is already rejected with the error of \<open>https.request\<close>
  for such a path, so nothing was sent.
\<close>

definition sent_at :: "'j req_state comp \<Rightarrow> string \<Rightarrow> bool" where
  "sent_at c pth =
     (case snd c of
        Inl e \<Rightarrow> False
      | Inr s \<Rightarrow> promise s = Pending \<and> prefix (''/api/v3'' @ pth) (path (options s)))"

definition refused_at :: "'j req_state comp \<Rightarrow> string \<Rightarrow> bool" where
  "refused_at c pth =
     (case snd c of
        Inl e \<Rightarrow> False
      | Inr s \<Rightarrow>
          promise s = Rejected (TypeError ''Request path contains unescaped characters'')
          \<and> prefix (''/api/v3'' @ pth) (path (options s)))"

text \<open>
  A parameter argument as the endpoints declare it: left out, or an object. Its
  values convert to text, so that joining a list among them does not throw.
\<close>

definition params_declared :: "jsval \<Rightarrow> bool" where
  "params_declared params =
     (case params of
        JUndefined \<Rightarrow> True
      | JObj ps \<Rightarrow> list_all (\<lambda>kv. converts (snd kv)) ps
      | _ \<Rightarrow> False)"

section \<open>The transport: settling the promise\<close>

lemma options_request_call [simp]:
  "options (request_call this p params) = buildRequestOptions this p params"
  by (simp add: request_call_def request_def split: sum.splits)

lemma settled_step:
  "promise s \<noteq> Pending \<Longrightarrow> promise (step this parse s ev) = promise s"
  by (cases ev; cases "promise s")
     (auto simp: on_end_def Let_def split: option.splits body.splits sum.splits prod.splits)

lemma settled_deliver:
  "promise s \<noteq> Pending \<Longrightarrow> promise (deliver this parse s evs) = promise s"
  unfolding deliver_def
  by (induction evs arbitrary: s) (simp_all add: settled_step)

lemma deliver_append:
  "deliver this parse s (xs @ ys) = deliver this parse (deliver this parse s xs) ys"
  by (simp add: deliver_def)

lemma deliver_data:
  "res s = Some r \<Longrightarrow> body r = Chunks cs \<Longrightarrow>
   deliver this parse s (map OnData chunks) = s\<lparr>res := Some (r\<lparr>body := Chunks (cs @ chunks)\<rparr>)\<rparr>"
proof (induction chunks arbitrary: s r cs)
  case Nil
  then show ?case by (simp add: deliver_def)
next
  case (Cons c chunks)
  have "deliver this parse s (map OnData (c # chunks))
        = deliver this parse (s\<lparr>res := Some (r\<lparr>body := Chunks (cs @ [c])\<rparr>)\<rparr>) (map OnData chunks)"
    using Cons.prems by (simp add: deliver_def)
  also have "\<dots> = s\<lparr>res := Some (r\<lparr>body := Chunks ((cs @ [c]) @ chunks)\<rparr>)\<rparr>"
    by (subst Cons.IH[where r = "r\<lparr>body := Chunks (cs @ [c])\<rparr>" and cs = "cs @ [c]"]) simp_all
  finally show ?case by simp
qed

lemma deliver_to_end:
  "deliver this parse s (OnResponse c m # map OnData chunks @ [OnEnd])
   = on_end parse (s\<lparr>res := Some \<lparr>statusCode = c, statusMessage = m, body = Chunks chunks\<rparr>\<rparr>)"
proof -
  let ?s1 = "s\<lparr>res := Some \<lparr>statusCode = c, statusMessage = m, body = Chunks []\<rparr>\<rparr>"
  have a: "deliver this parse s (OnResponse c m # map OnData chunks @ [OnEnd])
        = deliver this parse (deliver this parse ?s1 (map OnData chunks)) [OnEnd]"
    by (simp add: deliver_def)
  have b: "deliver this parse ?s1 (map OnData chunks)
        = ?s1\<lparr>res := Some (\<lparr>statusCode = c, statusMessage = m, body = Chunks []\<rparr>
                              \<lparr>body := Chunks ([] @ chunks)\<rparr>)\<rparr>"
    by (rule deliver_data) simp_all
  show ?thesis
    unfolding a b by (simp add: deliver_def)
qed

lemma deliver_exchange:
  assumes "promise s = Pending"
  shows "promise (deliver this parse s (OnResponse c m # map OnData chunks @ [OnEnd]))
   = (case parse (concat chunks) of
        Inl e \<Rightarrow> Rejected e
      | Inr v \<Rightarrow> Fulfilled \<lparr>success = (200 \<le> c \<and> c < 300), message = m, code = c,
                            data = Parsed v\<rparr>)"
  unfolding deliver_to_end using assms
  by (auto simp add: on_end_def Let_def split: sum.splits)

lemma exchange_emitted:
  "emitted (deliver this parse s (OnResponse c m # map OnData chunks @ [OnEnd]))
   = emitted s @ body_warnings (concat chunks)"
  unfolding deliver_to_end
  by (simp add: on_end_def Let_def split: sum.splits)

text \<open>The invariant of the promise: a fulfilled one holds an envelope whose flag fits its code.\<close>

lemma step_keeps_flag:
  "flag_fits (promise s) \<Longrightarrow> flag_fits (promise (step this parse s ev))"
  by (cases ev; cases "promise s")
     (auto simp: flag_fits_def on_end_def Let_def
           split: option.splits body.splits sum.splits prod.splits)

lemma deliver_keeps_flag:
  "flag_fits (promise s) \<Longrightarrow> flag_fits (promise (deliver this parse s evs))"
  unfolding deliver_def
  by (induction evs arbitrary: s) (simp_all add: step_keeps_flag)

text \<open>
  Claim C1. Whatever events the runtime delivers to a call, an envelope that the call
  resolves has \<open>success\<close> true exactly when its status code is at least 200 and
  below 300. A completed exchange whose body parses resolves the envelope of its
  status code, whatever that code is: a status outside the range is not an error.
\<close>

theorem C1_success_iff_2xx:
  "(promise (deliver this parse (request this p params) evs) = Fulfilled env
      \<longrightarrow> success env = (200 \<le> code env \<and> code env < 300))
   \<and> (parse (concat chunks) = Inr v
      \<longrightarrow> promise (deliver this parse (request this p params)
                    (OnResponse c m # map OnData chunks @ [OnEnd]))
          = Fulfilled \<lparr>success = (200 \<le> c \<and> c < 300), message = m, code = c,
                       data = Parsed v\<rparr>)"
proof (intro conjI impI)
  assume f: "promise (deliver this parse (request this p params) evs) = Fulfilled env"
  have "flag_fits (promise (request this p params :: 'a req_state))"
    by (simp add: flag_fits_def request_def)
  then have "flag_fits (promise (deliver this parse (request this p params) evs))"
    by (rule deliver_keeps_flag)
  with f show "success env = (200 \<le> code env \<and> code env < 300)"
    by (simp add: flag_fits_def)
next
  assume "parse (concat chunks) = Inr v"
  moreover have "promise (request this p params :: 'a req_state) = Pending"
    by (simp add: request_def)
  ultimately show "promise (deliver this parse (request this p params)
                    (OnResponse c m # map OnData chunks @ [OnEnd]))
          = Fulfilled \<lparr>success = (200 \<le> c \<and> c < 300), message = m, code = c,
                       data = Parsed v\<rparr>"
    by (simp add: deliver_exchange)
qed

theorem C1_witness:
  "promise (deliver (constructor JUndefined) parse_braces
              (request (constructor JUndefined) ''/ping'' JUndefined)
              [OnResponse 404 ''Not Found'', OnData ''{'', OnData ''}'', OnEnd])
   = Fulfilled \<lparr>success = False, message = ''Not Found'', code = 404, data = Parsed (JObj [])\<rparr>
   \<and> success \<lparr>success = False, message = ''Not Found'', code = 404, data = Parsed (JObj [])\<rparr>
     = (200 \<le> code \<lparr>success = False, message = ''Not Found'', code = 404,
                      data = Parsed (JObj [])\<rparr>
        \<and> code \<lparr>success = False, message = ''Not Found'', code = 404,
                 data = Parsed (JObj [])\<rparr> < (300::int))"
proof -
  have h: "parse_braces (concat [''{'', ''}'']) = Inr (JObj [])"
    by (simp add: parse_braces_def)
  have r: "promise (deliver (constructor JUndefined) parse_braces
              (request (constructor JUndefined) ''/ping'' JUndefined)
              [OnResponse 404 ''Not Found'', OnData ''{'', OnData ''}'', OnEnd])
     = Fulfilled \<lparr>success = False, message = ''Not Found'', code = 404, data = Parsed (JObj [])\<rparr>"
    using C1_success_iff_2xx [of "constructor JUndefined" parse_braces "''/ping''" JUndefined
                                "[]" undefined "[''{'', ''}'']" "JObj []" 404 "''Not Found''"] h
    by simp
  show ?thesis
    using r C1_success_iff_2xx [of "constructor JUndefined" parse_braces "''/ping''" JUndefined
        "[OnResponse 404 ''Not Found'', OnData ''{'', OnData ''}'', OnEnd]"
        "\<lparr>success = False, message = ''Not Found'', code = 404, data = Parsed (JObj [])\<rparr>"]
    by simp
qed

section \<open>The transport: parse failure and timeout\<close>

lemma throttled_body: "prefix ''Throttled'' text \<Longrightarrow> body_warnings text = [throttled_warning]"
  by (auto simp: body_warnings_def prefix_def)

text \<open>
  Claim C4. When the text of a completed exchange does not parse, the call rejects with
  the error of the parser and resolves no envelope. A body that begins with
  \<open>Throttled\<close> makes the handler emit the throttling warning first. After a completed
  exchange the call is rejected only if the parser failed.
\<close>

theorem C4_parse_failure_rejects:
  "(parse (concat chunks) = Inl e
      \<longrightarrow> promise (deliver this parse (request this p params)
                    (OnResponse c m # map OnData chunks @ [OnEnd])) = Rejected e)
   \<and> (prefix ''Throttled'' (concat chunks)
      \<longrightarrow> emitted (deliver this parse (request this p params)
                    (OnResponse c m # map OnData chunks @ [OnEnd])) = [throttled_warning])
   \<and> ((\<exists>e'. promise (deliver this parse (request this p params)
                    (OnResponse c m # map OnData chunks @ [OnEnd])) = Rejected e')
      \<longrightarrow> (\<exists>e'. parse (concat chunks) = Inl e'))"
proof -
  have pend: "promise (request this p params :: 'a req_state) = Pending"
    by (simp add: request_def)
  have em: "emitted (request this p params :: 'a req_state) = []"
    by (simp add: request_def)
  show ?thesis
    by (auto simp: deliver_exchange[OF pend] exchange_emitted em throttled_body split: sum.splits)
qed

theorem C4_witness:
  "promise (deliver (constructor JUndefined) parse_braces
             (request (constructor JUndefined) ''/ping'' JUndefined)
             [OnResponse 429 ''Too Many Requests'', OnData ''Thrott'', OnData ''led'', OnEnd])
     = Rejected (SyntaxError ''Unexpected token'')
   \<and> emitted (deliver (constructor JUndefined) parse_braces
             (request (constructor JUndefined) ''/ping'' JUndefined)
             [OnResponse 429 ''Too Many Requests'', OnData ''Thrott'', OnData ''led'', OnEnd])
     = [throttled_warning]
   \<and> parse_braces ''Throttled'' = Inl (SyntaxError ''Unexpected token'')"
proof -
  have h: "parse_braces (concat [''Thrott'', ''led'']) = Inl (SyntaxError ''Unexpected token'')"
    by (simp add: parse_braces_def)
  have t: "prefix ''Throttled'' (concat [''Thrott'', ''led''])"
    by simp
  show ?thesis
    using h t
      C4_parse_failure_rejects [of parse_braces "[''Thrott'', ''led'']"
        "SyntaxError ''Unexpected token''" "constructor JUndefined" "''/ping''" JUndefined
        429 "''Too Many Requests''"]
    by simp
qed

lemma aborted_step: "aborted s \<Longrightarrow> aborted (step this parse s ev)"
  by (cases ev) (auto simp: on_end_def Let_def split: option.splits body.splits sum.splits)

lemma aborted_deliver: "aborted s \<Longrightarrow> aborted (deliver this parse s evs)"
  unfolding deliver_def
  by (induction evs arbitrary: s) (simp_all add: aborted_step)

lemma show_nat_sublist: "sublist (show_nat n) (a @ show_nat n @ b)"
  by (rule sublist_appendI)

lemma default_timeout_message:
  "timeout_message (constructor k)
   = ''CoinGecko API request timed out. Current timeout is: 30000 milliseconds''"
  by (simp add: timeout_message_def constructor_def TIMEOUT_def show_nat.simps digit_char_def)

text \<open>
  Claim C8. When the timeout event arrives while the call is pending, the handler
  aborts the request and the call is rejected with the timeout error, whatever
  arrives afterwards. The message of that error contains the decimal text of the
  timeout that was put into the request options; for a client as constructed this is
  30000.
\<close>

theorem C8_timeout_rejects:
  "(promise (deliver this parse (request this p params) pre) = Pending
      \<longrightarrow> aborted (deliver this parse (request this p params) (pre @ OnTimeout # post))
        \<and> promise (deliver this parse (request this p params) (pre @ OnTimeout # post))
          = Rejected (Error (timeout_message this)))
   \<and> sublist (show_nat (timeout (buildRequestOptions this p params))) (timeout_message this)
   \<and> timeout (buildRequestOptions (constructor k) p params) = 30000
   \<and> timeout_message (constructor k)
     = ''CoinGecko API request timed out. Current timeout is: 30000 milliseconds''"
proof (intro conjI impI)
  let ?s = "deliver this parse (request this p params) pre"
  assume pend: "promise ?s = Pending"
  have split: "deliver this parse (request this p params) (pre @ OnTimeout # post)
        = deliver this parse (step this parse ?s OnTimeout) post"
    by (simp add: deliver_def)
  show "aborted (deliver this parse (request this p params) (pre @ OnTimeout # post))"
    unfolding split by (rule aborted_deliver) simp
  have "promise (step this parse ?s OnTimeout) = Rejected (Error (timeout_message this))"
    using pend by simp
  then show "promise (deliver this parse (request this p params) (pre @ OnTimeout # post))
          = Rejected (Error (timeout_message this))"
    unfolding split by (simp add: settled_deliver)
next
  show "sublist (show_nat (timeout (buildRequestOptions this p params))) (timeout_message this)"
    unfolding timeout_message_def buildRequestOptions_def
    by (simp only: request_options.simps sublist_appendI)
next
  show "timeout (buildRequestOptions (constructor k) p params) = 30000"
    by (simp add: buildRequestOptions_def constructor_def TIMEOUT_def)
next
  show "timeout_message (constructor k)
     = ''CoinGecko API request timed out. Current timeout is: 30000 milliseconds''"
    by (rule default_timeout_message)
qed

theorem C8_witness:
  "aborted (deliver (constructor JUndefined) parse_braces
              (request (constructor JUndefined) ''/ping'' JUndefined)
              [OnResponse 200 ''OK'', OnData ''{'', OnTimeout, OnError (TransportError ''socket hang up'')])
   \<and> promise (deliver (constructor JUndefined) parse_braces
              (request (constructor JUndefined) ''/ping'' JUndefined)
              [OnResponse 200 ''OK'', OnData ''{'', OnTimeout, OnError (TransportError ''socket hang up'')])
     = Rejected (Error ''CoinGecko API request timed out. Current timeout is: 30000 milliseconds'')"
proof -
  have h: "promise (deliver (constructor JUndefined) parse_braces
              (request (constructor JUndefined) ''/ping'' JUndefined)
              [OnResponse 200 ''OK'', OnData ''{'']) = Pending"
    by (simp add: deliver_def request_def)
  show ?thesis
    using h
      C8_timeout_rejects [of "constructor JUndefined" parse_braces "''/ping''" JUndefined
        "[OnResponse 200 ''OK'', OnData ''{'']" "[OnError (TransportError ''socket hang up'')]"
        JUndefined]
    by simp
qed

section \<open>The codec: escaping and reading back\<close>

lemma hex_digit_cases:
  assumes "(d::nat) < 16"
  shows "(d = 15 \<or> d = 14 \<or> d = 13 \<or> d = 12) \<or> (d = 11 \<or> d = 10 \<or> d = 9 \<or> d = 8)
    \<or> (d = 7 \<or> d = 6 \<or> d = 5 \<or> d = 4) \<or> (d = 3 \<or> d = 2 \<or> d = 1 \<or> d = 0)"
  using assms by presburger

lemma hex_char_cases:
  assumes "d < 16"
  shows "hex_val (hex_char d) = Some d"
  using hex_digit_cases[OF assms] by (elim disjE) (simp_all add: hex_char_def hex_val_def)

lemma hex_char_in: "hex_char n \<in> set ''0123456789ABCDEF''"
  unfolding hex_char_def by (rule nth_mem) simp

lemma hex_char_not_sep:
  "CHR ''&'' \<noteq> hex_char n" "CHR ''='' \<noteq> hex_char n" "CHR ''%'' \<noteq> hex_char n"
  using hex_char_in[of n] by auto

lemma unreserved_not_sep:
  "unreserved c \<Longrightarrow> CHR ''&'' \<noteq> c" "unreserved c \<Longrightarrow> CHR ''='' \<noteq> c"
  "unreserved c \<Longrightarrow> CHR ''%'' \<noteq> c"
  by (auto simp: unreserved_def)

lemma esc_byte_no_sep: "CHR ''&'' \<notin> set (esc_byte c)" "CHR ''='' \<notin> set (esc_byte c)"
  by (simp_all add: esc_byte_def hex_char_not_sep unreserved_not_sep)

lemma qsEscape_no_sep: "CHR ''&'' \<notin> set (qsEscape s)" "CHR ''='' \<notin> set (qsEscape s)"
  by (simp_all add: qsEscape_def esc_byte_no_sep)

lemma split_on_nonempty: "split_on c s \<noteq> []"
  by (induction s) (auto split: list.splits)

lemma split_on_free: "c \<notin> set a \<Longrightarrow> split_on c a = [a]"
  by (induction a) (auto split: list.splits)

lemma split_on_sep: "c \<notin> set a \<Longrightarrow> split_on c (a @ c # r) = a # split_on c r"
  by (induction a) (auto split: list.splits simp: split_on_nonempty)

lemma split_join:
  "fs \<noteq> [] \<Longrightarrow> \<forall>f \<in> set fs. c \<notin> set f \<Longrightarrow> split_on c (join_with [c] fs) = fs"
proof (induction "[c]" fs rule: join_with.induct)
  case 1
  then show ?case by simp
next
  case (2 x)
  then show ?case by (simp add: split_on_free)
next
  case (3 x y ys)
  then show ?case by (simp add: split_on_sep)
qed

lemma unescape_plain: "a \<noteq> CHR ''%'' \<Longrightarrow> qsUnescape (a # r) = a # qsUnescape r"
  by (cases r rule: qsUnescape.cases) auto

lemma unescape_hex:
  assumes "h < 16" "l < 16"
  shows "qsUnescape (CHR ''%'' # hex_char h # hex_char l # r) = char_of (16 * h + l) # qsUnescape r"
  using assms by (simp add: hex_char_cases)

lemma unescape_esc_byte: "qsUnescape (esc_byte c @ r) = c # qsUnescape r"
proof (cases "unreserved c")
  case True
  then show ?thesis
    using unreserved_not_sep(3)[of c] by (simp add: esc_byte_def unescape_plain)
next
  case False
  let ?n = "of_char c :: nat"
  have lt: "?n div 16 < 16"
  proof -
    have "?n mod 256 = ?n" by simp
    then have "?n < 256" by (metis mod_less_divisor zero_less_numeral)
    then show ?thesis by arith
  qed
  have hc: "hex_char ?n = hex_char (?n mod 16)"
    by (simp add: hex_char_def)
  have "qsUnescape (esc_byte c @ r)
        = qsUnescape (CHR ''%'' # hex_char (?n div 16) # hex_char (?n mod 16) # r)"
    using False hc by (simp add: esc_byte_def)
  also have "\<dots> = char_of (16 * (?n div 16) + ?n mod 16) # qsUnescape r"
    by (rule unescape_hex) (use lt in simp_all)
  also have "16 * (?n div 16) + ?n mod 16 = ?n"
    by simp
  finally show ?thesis by simp
qed

lemma unescape_escape_append: "qsUnescape (qsEscape s @ r) = s @ qsUnescape r"
  by (induction s) (simp_all add: qsEscape_def unescape_esc_byte)

lemma unescape_escape: "qsUnescape (qsEscape s) = s"
  using unescape_escape_append[of s "[]"] by simp

lemma unescape_no_percent: "CHR ''%'' \<notin> set s \<Longrightarrow> qsUnescape s = s"
  by (induction s rule: qsUnescape.induct) auto

section \<open>The codec: the fields a parameter mapping sends\<close>

lemma digit_char_in: "digit_char n \<in> set ''0123456789''"
  unfolding digit_char_def by (rule nth_mem) simp

lemma show_nat_digits: "set (show_nat n) \<subseteq> set ''0123456789''"
proof (induction n rule: show_nat.induct)
  case (1 n)
  show ?case
  proof (cases "n < 10")
    case True
    then show ?thesis
      using digit_char_in[of n] by (subst show_nat.simps) simp
  next
    case False
    then show ?thesis
      using 1 digit_char_in[of n] by (subst show_nat.simps) simp
  qed
qed

lemma show_nat_plain:
  "CHR ''&'' \<notin> set (show_nat n)" "CHR ''='' \<notin> set (show_nat n)" "CHR ''%'' \<notin> set (show_nat n)"
  using show_nat_digits[of n] by auto

lemma show_int_plain:
  "CHR ''&'' \<notin> set (show_int i)" "CHR ''='' \<notin> set (show_int i)" "CHR ''%'' \<notin> set (show_int i)"
  by (simp_all add: show_int_def show_nat_plain)

lemma enc_no_sep:
  "CHR ''&'' \<notin> set (encodeStringified v)" "CHR ''='' \<notin> set (encodeStringified v)"
  by (cases v, simp_all add: qsEscape_no_sep show_int_plain)+

lemma unescape_enc: "qsUnescape (encodeStringified v) = stringifyPrimitive v"
  by (cases v) (simp_all add: unescape_escape unescape_no_percent show_int_plain)

lemma cut_at_sep:
  "c \<notin> set a \<Longrightarrow> takeWhile (\<lambda>x. x \<noteq> c) (a @ c # b) = a"
  "c \<notin> set a \<Longrightarrow> dropWhile (\<lambda>x. x \<noteq> c) (a @ c # b) = c # b"
  by (induction a) auto

lemma read_field_enc: "read_field (field k v) = (k, stringifyPrimitive v)"
proof -
  have f: "field k v = qsEscape k @ CHR ''='' # encodeStringified v"
    by (simp add: field_def)
  show ?thesis
    unfolding read_field_def f
    by (simp add: cut_at_sep qsEscape_no_sep unescape_escape unescape_enc)
qed

lemma read_fields_of: "map read_field (fields_of kv) = pairs_of kv"
  by (cases kv rule: pairs_of.cases) (simp_all add: read_field_enc)

lemma field_plain: "CHR ''&'' \<notin> set (field k v)" "field k v \<noteq> []"
  by (simp_all add: field_def qsEscape_no_sep enc_no_sep)

lemma field_no_amp: "f \<in> set (fields_of kv) \<Longrightarrow> CHR ''&'' \<notin> set f"
  by (cases kv rule: fields_of.cases) (auto simp: field_plain)

lemma field_nonempty: "f \<in> set (fields_of kv) \<Longrightarrow> f \<noteq> []"
  by (cases kv rule: fields_of.cases) (auto simp: field_plain)

lemma join_with_nonempty: "fs \<noteq> [] \<Longrightarrow> \<forall>f \<in> set fs. f \<noteq> [] \<Longrightarrow> join_with sep fs \<noteq> []"
  by (induction sep fs rule: join_with.induct) auto

lemma query_params_stringify:
  "query_params (querystring_stringify (JObj ps)) = concat (map pairs_of ps)"
proof -
  let ?fs = "concat (map fields_of ps)"
  have amp: "\<forall>f \<in> set ?fs. CHR ''&'' \<notin> set f"
    by (auto dest: field_no_amp)
  have ne: "\<forall>f \<in> set ?fs. f \<noteq> []"
    by (auto dest: field_nonempty)
  have rd: "concat (map pairs_of ps) = map read_field ?fs"
    by (simp add: map_concat read_fields_of comp_def)
  have q: "querystring_stringify (JObj ps) = join_with ''&'' ?fs"
    by simp
  show ?thesis
  proof (cases "?fs = []")
    case True
    show ?thesis
      unfolding q rd True by (simp add: query_params_def)
  next
    case False
    then have "join_with ''&'' ?fs \<noteq> []"
      using ne by (rule join_with_nonempty)
    moreover have "split_on CHR ''&'' (join_with ''&'' ?fs) = ?fs"
      using False amp by (rule split_join)
    ultimately show ?thesis
      unfolding q rd by (simp add: query_params_def)
  qed
qed

lemma pairs_of_keys: "fst ` set (pairs_of (k, v)) \<subseteq> {k}"
  by (cases "(k, v)" rule: pairs_of.cases) auto

lemma map_of_pairs_skip:
  "k' \<noteq> k \<Longrightarrow> map_of (pairs_of (k', v) @ r) k = map_of r k"
proof -
  assume "k' \<noteq> k"
  then have "k \<notin> fst ` set (pairs_of (k', v))"
    using pairs_of_keys[of k' v] by auto
  then have "map_of (pairs_of (k', v)) k = None"
    by (simp add: map_of_eq_None_iff)
  then show ?thesis by (simp add: map_add_def)
qed

lemma sent_pairs:
  "query_value (querystring_stringify (JObj ps)) k = map_of (concat (map pairs_of ps)) k"
  unfolding query_value_def query_params_stringify ..

lemma sent_value_pairs:
  "map_of ps k = Some v \<Longrightarrow> \<not> isArray v \<Longrightarrow>
   map_of (concat (map pairs_of ps)) k = Some (stringifyPrimitive v)"
proof (induction ps)
  case Nil
  then show ?case by simp
next
  case (Cons kv ps)
  obtain k' v' where kv: "kv = (k', v')" by (cases kv)
  show ?case
  proof (cases "k' = k")
    case True
    then have "v' = v" using Cons.prems kv by simp
    then have "pairs_of kv = [(k, stringifyPrimitive v)]"
      using Cons.prems(2) kv True by (cases v) (simp_all add: isArray_def)
    then show ?thesis by simp
  next
    case False
    then have "map_of ps k = Some v" using Cons.prems kv by simp
    then have "map_of (concat (map pairs_of ps)) k = Some (stringifyPrimitive v)"
      using Cons.prems(2) by (rule Cons.IH)
    then show ?thesis
      using False kv map_of_pairs_skip[of k' k v' "concat (map pairs_of ps)"] by simp
  qed
qed

lemma sent_value:
  "map_of ps k = Some v \<Longrightarrow> \<not> isArray v \<Longrightarrow>
   query_value (querystring_stringify (JObj ps)) k = Some (stringifyPrimitive v)"
  unfolding sent_pairs by (rule sent_value_pairs)

lemma unsent_value_pairs:
  "k \<notin> fst ` set ps \<Longrightarrow> map_of (concat (map pairs_of ps)) k = None"
proof (induction ps)
  case Nil
  then show ?case by simp
next
  case (Cons kv ps)
  obtain k' v' where kv: "kv = (k', v')" by (cases kv)
  then have "k' \<noteq> k" and "k \<notin> fst ` set ps" using Cons.prems by auto
  then show ?case
    using Cons.IH kv map_of_pairs_skip[of k' k v' "concat (map pairs_of ps)"] by simp
qed

lemma unsent_value:
  "k \<notin> fst ` set ps \<Longrightarrow> query_value (querystring_stringify (JObj ps)) k = None"
  unfolding sent_pairs by (rule unsent_value_pairs)

lemma obj_get_map_of: "obj_get ps k = (case map_of ps k of None \<Rightarrow> JUndefined | Some v \<Rightarrow> v)"
  by (induction ps) auto

lemma obj_get_set: "obj_get (obj_set ps k v) k' = (if k' = k then v else obj_get ps k')"
  by (induction ps) auto

lemma map_of_obj_set: "map_of (obj_set ps k v) k' = (if k' = k then Some v else map_of ps k')"
  by (induction ps) auto

lemma keys_obj_set: "fst ` set (obj_set ps k v) = insert k (fst ` set ps)"
  by (induction ps) force+

lemma field_in_join: "f \<in> set fs \<Longrightarrow> sublist f (join_with sep fs)"
proof (induction sep fs rule: join_with.induct)
  case (1 sep)
  then show ?case by simp
next
  case (2 sep x)
  then show ?case by simp
next
  case (3 sep x y ys)
  show ?case
  proof (cases "f = x")
    case True
    then show ?thesis by simp
  next
    case False
    then have "sublist f (join_with sep (y # ys))" using 3 by simp
    then obtain a b where "join_with sep (y # ys) = a @ f @ b"
      by (auto simp: sublist_def)
    then have "join_with sep (x # y # ys) = (x @ sep @ a) @ f @ b" by simp
    then show ?thesis unfolding sublist_def by blast
  qed
qed

section \<open>The request builder: host, key and query string\<close>

lemma key_name_plain: "qsEscape ''x_cg_pro_api_key'' = ''x_cg_pro_api_key''"
  by (simp add: qsEscape_def esc_byte_def unreserved_def)

lemma path_absent:
  "\<not> isObject params \<Longrightarrow> path (buildRequestOptions this p params) = ''/api/v3'' @ p"
  by (simp add: buildRequestOptions_def query_of_def insertApiKeyIntoParams_def API_VERSION_def)

lemma path_object:
  "path (buildRequestOptions this p (JObj ps))
   = ''/api/v3'' @ p @ ''?'' @ querystring_stringify (insertApiKeyIntoParams this (JObj ps))"
  by (simp add: buildRequestOptions_def query_of_def insertApiKeyIntoParams_def API_VERSION_def
        isObject_def Let_def)

lemma insert_key:
  "apiKey this \<noteq> JNull \<Longrightarrow>
   insertApiKeyIntoParams this (JObj ps) = JObj (obj_set ps ''x_cg_pro_api_key'' (apiKey this))"
  by (simp add: insertApiKeyIntoParams_def isObject_def shouldCallPro_def)

lemma insert_no_key: "apiKey this = JNull \<Longrightarrow> insertApiKeyIntoParams this params = params"
  by (simp add: insertApiKeyIntoParams_def shouldCallPro_def)

lemma key_field_sent:
  "sublist (''x_cg_pro_api_key='' @ qsEscape k)
     (querystring_stringify (JObj (obj_set ps ''x_cg_pro_api_key'' (JStr k))))"
proof -
  have m: "(''x_cg_pro_api_key'', JStr k) \<in> set (obj_set ps ''x_cg_pro_api_key'' (JStr k))"
    by (induction ps) auto
  have "field ''x_cg_pro_api_key'' (JStr k)
          \<in> set (concat (map fields_of (obj_set ps ''x_cg_pro_api_key'' (JStr k))))"
    using m by force
  then have "sublist (field ''x_cg_pro_api_key'' (JStr k))
          (join_with ''&'' (concat (map fields_of (obj_set ps ''x_cg_pro_api_key'' (JStr k)))))"
    by (rule field_in_join)
  then show ?thesis
    by (simp add: field_def key_name_plain)
qed

text \<open>
  Claim C2, as the code has it. On a client whose key is not \<open>null\<close> every request
  goes to the paid host. When the endpoint passes a parameter mapping and the key is
  a string, the query string is the serialised mapping with the key stored under
  \<open>x_cg_pro_api_key\<close>: the receiver reads the key as the value of that name, and the
  text \<open>x_cg_pro_api_key=\<close> followed by the escaped key occurs in it. When the
  endpoint passes no mapping, \<open>_insertApiKeyIntoParams\<close> stores nothing and the path
  has no query string.
\<close>

theorem C2_key_sent_with_mapping:
  "apiKey this \<noteq> JNull \<longrightarrow>
     host (buildRequestOptions this p params) = PRO_HOST
     \<and> (\<forall>ps k. params = JObj ps \<and> apiKey this = JStr k \<longrightarrow>
           path (buildRequestOptions this p params)
             = ''/api/v3'' @ p @ ''?'' @ querystring_stringify (insertApiKeyIntoParams this params)
           \<and> query_value (querystring_stringify (insertApiKeyIntoParams this params))
                ''x_cg_pro_api_key'' = Some k
           \<and> sublist (''x_cg_pro_api_key='' @ qsEscape k)
                (querystring_stringify (insertApiKeyIntoParams this params)))
     \<and> (\<not> isObject params \<longrightarrow> path (buildRequestOptions this p params) = ''/api/v3'' @ p)"
proof (intro impI conjI allI)
  assume k: "apiKey this \<noteq> JNull"
  then show "host (buildRequestOptions this p params) = PRO_HOST"
    by (simp add: buildRequestOptions_def resolveHost_def shouldCallPro_def)
next
  fix ps k
  assume k: "apiKey this \<noteq> JNull" and h: "params = JObj ps \<and> apiKey this = JStr k"
  have ins: "insertApiKeyIntoParams this params = JObj (obj_set ps ''x_cg_pro_api_key'' (JStr k))"
    using insert_key[OF k, of ps] h by simp
  show "path (buildRequestOptions this p params)
             = ''/api/v3'' @ p @ ''?'' @ querystring_stringify (insertApiKeyIntoParams this params)"
    using h path_object[of this p ps] by simp
  show "query_value (querystring_stringify (insertApiKeyIntoParams this params))
                ''x_cg_pro_api_key'' = Some k"
    unfolding ins
    using sent_value[of "obj_set ps ''x_cg_pro_api_key'' (JStr k)" "''x_cg_pro_api_key''" "JStr k"]
    by (simp add: map_of_obj_set isArray_def)
  show "sublist (''x_cg_pro_api_key='' @ qsEscape k)
                (querystring_stringify (insertApiKeyIntoParams this params))"
    unfolding ins by (rule key_field_sent)
next
  assume "\<not> isObject params"
  then show "path (buildRequestOptions this p params) = ''/api/v3'' @ p"
    by (rule path_absent)
qed

lemmas eval_defs =
  buildRequestOptions_def query_of_def insertApiKeyIntoParams_def API_VERSION_def
  isObject_def shouldCallPro_def resolveHost_def constructor_def default_arg_def
  HOST_def PRO_HOST_def TIMEOUT_def request_def issued_def ret_def
  field_def qsEscape_def esc_byte_def unreserved_def hex_char_def

text \<open>
  Claim C2 as stated fails for \<open>ping\<close>, which passes no mapping: with the key \<open>KEY\<close>
  the request goes to the paid host with the path \<open>/api/v3/ping\<close> and no key.
\<close>

theorem C2_counterexample:
  "issued (ping (constructor (JStr ''KEY'')) :: jsval req_state comp)
     = Some \<lparr>path = ''/api/v3/ping'', http_method = ''GET'', host = ''pro-api.coingecko.com'',
             port = 443, timeout = 30000\<rparr>
   \<and> \<not> sublist ''x_cg_pro_api_key=KEY'' ''/api/v3/ping''"
  by (simp add: ping_def eval_defs sublist_Cons_right)

theorem C2_witness:
  "apiKey (constructor (JStr ''KEY'')) \<noteq> JNull
   \<and> host (buildRequestOptions (constructor (JStr ''KEY'')) ''/coins'' (JObj [(''page'', JNum 2)]))
       = ''pro-api.coingecko.com''
   \<and> path (buildRequestOptions (constructor (JStr ''KEY'')) ''/coins'' (JObj [(''page'', JNum 2)]))
       = ''/api/v3/coins?page=2&x_cg_pro_api_key=KEY''
   \<and> query_value ''page=2&x_cg_pro_api_key=KEY'' ''x_cg_pro_api_key'' = Some ''KEY''
   \<and> sublist ''x_cg_pro_api_key=KEY'' ''page=2&x_cg_pro_api_key=KEY''"
proof -
  have k: "apiKey (constructor (JStr ''KEY'')) \<noteq> JNull"
    by (simp add: constructor_def default_arg_def)
  have q: "querystring_stringify
             (insertApiKeyIntoParams (constructor (JStr ''KEY'')) (JObj [(''page'', JNum 2)]))
           = ''page=2&x_cg_pro_api_key=KEY''"
    by (simp add: eval_defs show_int_def show_nat.simps digit_char_def)
  have e: "qsEscape ''KEY'' = ''KEY''"
    by (simp add: eval_defs)
  show ?thesis
    using k q e
      C2_key_sent_with_mapping [of "constructor (JStr ''KEY'')" "''/coins''"
        "JObj [(''page'', JNum 2)]"]
    by (simp add: constructor_def default_arg_def PRO_HOST_def)
qed

text \<open>
  Claim C3 as stated fails for an empty mapping: \<open>coins.all\<close>, called with \<open>{}\<close> or
  with nothing (its parameter then defaults to \<open>{}\<close>), requests \<open>/api/v3/coins?\<close>.
\<close>

theorem C3_counterexample:
  "issued (coins_all (constructor JUndefined) (JObj []) :: jsval req_state comp)
     = Some \<lparr>path = ''/api/v3/coins?'', http_method = ''GET'', host = ''api.coingecko.com'',
             port = 443, timeout = 30000\<rparr>
   \<and> issued (coins_all (constructor JUndefined) JUndefined :: jsval req_state comp)
     = Some \<lparr>path = ''/api/v3/coins?'', http_method = ''GET'', host = ''api.coingecko.com'',
             port = 443, timeout = 30000\<rparr>"
  by (simp add: coins_all_def eval_defs)

text \<open>
  Claim C3, as the code has it. When the parameter argument is not an object (the
  endpoint passes none) the path is the versioned path with nothing appended, so
  \<open>ping\<close> requests exactly \<open>/api/v3/ping\<close> on every client. A mapping that is present
  but empty, on a client without key, serialises to the empty string and the path
  ends with the question mark.
\<close>

theorem C3_absent_mapping_no_question_mark:
  "(\<not> isObject params \<longrightarrow> path (buildRequestOptions this p params) = ''/api/v3'' @ p)
   \<and> map_option path (issued (ping this)) = Some ''/api/v3/ping''
   \<and> (apiKey this = JNull
        \<longrightarrow> path (buildRequestOptions this p (JObj [])) = ''/api/v3'' @ p @ ''?'')"
proof (intro conjI impI)
  assume "\<not> isObject params"
  then show "path (buildRequestOptions this p params) = ''/api/v3'' @ p"
    by (rule path_absent)
next
  show "map_option path (issued (ping this)) = Some ''/api/v3/ping''"
    by (simp add: ping_def issued_def ret_def request_def path_absent isObject_def)
next
  assume "apiKey this = JNull"
  then show "path (buildRequestOptions this p (JObj [])) = ''/api/v3'' @ p @ ''?''"
    by (simp add: path_object insert_no_key)
qed

theorem C3_witness:
  "\<not> isObject JUndefined
   \<and> apiKey (constructor JUndefined) = JNull
   \<and> path (buildRequestOptions (constructor JUndefined) ''/ping'' JUndefined) = ''/api/v3/ping''
   \<and> path (buildRequestOptions (constructor JUndefined) ''/ping'' (JObj [])) = ''/api/v3/ping?''"
proof -
  have a: "\<not> isObject JUndefined"
    by (simp add: isObject_def)
  have k: "apiKey (constructor JUndefined) = JNull"
    by (simp add: constructor_def default_arg_def)
  show ?thesis
    using a k
      C3_absent_mapping_no_question_mark [where ?'a = jsval, of JUndefined "constructor JUndefined" "''/ping''"]
    by simp
qed

text \<open>
  Claim C7 as stated fails when the caller's own mapping has the name: the client
  without key passes it through.
\<close>

theorem C7_counterexample:
  "apiKey (constructor JUndefined) = JNull
   \<and> issued (coins_all (constructor JUndefined) (JObj [(''x_cg_pro_api_key'', JStr ''abc'')])
        :: jsval req_state comp)
     = Some \<lparr>path = ''/api/v3/coins?x_cg_pro_api_key=abc'', http_method = ''GET'',
             host = ''api.coingecko.com'', port = 443, timeout = 30000\<rparr>
   \<and> query_value ''x_cg_pro_api_key=abc'' ''x_cg_pro_api_key'' = Some ''abc''"
proof -
  have "query_value (querystring_stringify (JObj [(''x_cg_pro_api_key'', JStr ''abc'')]))
          ''x_cg_pro_api_key'' = Some ''abc''"
    using sent_value[of "[(''x_cg_pro_api_key'', JStr ''abc'')]" "''x_cg_pro_api_key''" "JStr ''abc''"]
    by (simp add: isArray_def)
  moreover have "querystring_stringify (JObj [(''x_cg_pro_api_key'', JStr ''abc'')])
                 = ''x_cg_pro_api_key=abc''"
    by (simp add: eval_defs)
  ultimately show ?thesis
    by (simp add: coins_all_def eval_defs)
qed

text \<open>
  Claim C7, as the code has it. On a client whose key is \<open>null\<close> every request goes to
  the public host and \<open>_insertApiKeyIntoParams\<close> returns the mapping as it was, so
  the query string has a parameter \<open>x_cg_pro_api_key\<close> only if the caller's mapping
  has that name; without a mapping there is no query string.
\<close>

theorem C7_no_key_adds_nothing:
  "apiKey this = JNull \<longrightarrow>
     host (buildRequestOptions this p params) = HOST
     \<and> insertApiKeyIntoParams this params = params
     \<and> (\<forall>ps. params = JObj ps \<and> ''x_cg_pro_api_key'' \<notin> fst ` set ps \<longrightarrow>
           path (buildRequestOptions this p params)
             = ''/api/v3'' @ p @ ''?'' @ querystring_stringify params
           \<and> query_value (querystring_stringify params) ''x_cg_pro_api_key'' = None)
     \<and> (\<not> isObject params \<longrightarrow> path (buildRequestOptions this p params) = ''/api/v3'' @ p)"
proof (intro impI conjI allI)
  assume k: "apiKey this = JNull"
  then show "host (buildRequestOptions this p params) = HOST"
    by (simp add: buildRequestOptions_def resolveHost_def shouldCallPro_def)
  show "insertApiKeyIntoParams this params = params"
    using k by (rule insert_no_key)
next
  fix ps
  assume k: "apiKey this = JNull"
    and h: "params = JObj ps \<and> ''x_cg_pro_api_key'' \<notin> fst ` set ps"
  show "path (buildRequestOptions this p params)
             = ''/api/v3'' @ p @ ''?'' @ querystring_stringify params"
    using h k by (simp add: path_object insert_no_key)
  show "query_value (querystring_stringify params) ''x_cg_pro_api_key'' = None"
    using h unsent_value[of "''x_cg_pro_api_key''" ps] by simp
next
  assume "\<not> isObject params"
  then show "path (buildRequestOptions this p params) = ''/api/v3'' @ p"
    by (rule path_absent)
qed

theorem C7_witness:
  "apiKey (constructor JUndefined) = JNull
   \<and> ''x_cg_pro_api_key'' \<notin> fst ` set [(''page'', JNum 2)]
   \<and> host (buildRequestOptions (constructor JUndefined) ''/coins'' (JObj [(''page'', JNum 2)]))
       = ''api.coingecko.com''
   \<and> path (buildRequestOptions (constructor JUndefined) ''/coins'' (JObj [(''page'', JNum 2)]))
       = ''/api/v3/coins?page=2''
   \<and> query_value ''page=2'' ''x_cg_pro_api_key'' = None"
proof -
  have q: "querystring_stringify (JObj [(''page'', JNum 2)]) = ''page=2''"
    by (simp add: eval_defs show_int_def show_nat.simps digit_char_def)
  show ?thesis
    using q
      C7_no_key_adds_nothing [of "constructor JUndefined" "''/coins''" "JObj [(''page'', JNum 2)]"]
    by (simp add: constructor_def default_arg_def HOST_def)
qed

text \<open>
  Claim C10 as stated fails for the key \<open>undefined\<close>: the constructor's parameter
  takes its default \<open>null\<close>, so the client is not a paid one.
\<close>

theorem C10_counterexample:
  "\<not> shouldCallPro (constructor JUndefined)
   \<and> issued (ping (constructor JUndefined) :: jsval req_state comp)
     = Some \<lparr>path = ''/api/v3/ping'', http_method = ''GET'', host = ''api.coingecko.com'',
             port = 443, timeout = 30000\<rparr>"
  by (simp add: ping_def eval_defs)

text \<open>
  Claim C10, as the code has it. \<open>_shouldCallPro\<close> is true exactly when the stored
  key is not \<open>null\<close>. A client constructed with \<open>undefined\<close> stores \<open>null\<close> and calls
  the public host. A client constructed with the empty string is a paid one: its
  requests go to the paid host, and a call with a parameter mapping sends the empty
  key under \<open>x_cg_pro_api_key\<close>, while a call without mapping has no query string.
\<close>

theorem C10_configured_iff_not_null:
  "shouldCallPro this = (apiKey this \<noteq> JNull)
   \<and> apiKey (constructor JUndefined) = JNull
   \<and> host (buildRequestOptions (constructor JUndefined) p params) = HOST
   \<and> shouldCallPro (constructor (JStr []))
   \<and> host (buildRequestOptions (constructor (JStr [])) p params) = PRO_HOST
   \<and> path (buildRequestOptions (constructor (JStr [])) p (JObj ps))
       = ''/api/v3'' @ p @ ''?''
           @ querystring_stringify (JObj (obj_set ps ''x_cg_pro_api_key'' (JStr [])))
   \<and> query_value (querystring_stringify (JObj (obj_set ps ''x_cg_pro_api_key'' (JStr []))))
         ''x_cg_pro_api_key'' = Some []
   \<and> path (buildRequestOptions (constructor (JStr [])) p JUndefined) = ''/api/v3'' @ p"
proof (intro conjI)
  show "shouldCallPro this = (apiKey this \<noteq> JNull)"
    by (simp add: shouldCallPro_def)
  show "apiKey (constructor JUndefined) = JNull"
    by (simp add: constructor_def default_arg_def)
  show "host (buildRequestOptions (constructor JUndefined) p params) = HOST"
    by (simp add: buildRequestOptions_def resolveHost_def shouldCallPro_def constructor_def
          default_arg_def)
  show "shouldCallPro (constructor (JStr []))"
    by (simp add: shouldCallPro_def constructor_def default_arg_def)
  show "host (buildRequestOptions (constructor (JStr [])) p params) = PRO_HOST"
    by (simp add: buildRequestOptions_def resolveHost_def shouldCallPro_def constructor_def
          default_arg_def)
  have k: "apiKey (constructor (JStr [])) \<noteq> JNull"
    by (simp add: constructor_def default_arg_def)
  have a: "apiKey (constructor (JStr [])) = JStr []"
    by (simp add: constructor_def default_arg_def)
  show "path (buildRequestOptions (constructor (JStr [])) p (JObj ps))
       = ''/api/v3'' @ p @ ''?''
           @ querystring_stringify (JObj (obj_set ps ''x_cg_pro_api_key'' (JStr [])))"
    using insert_key[OF k, of ps] by (simp add: path_object a)
  show "query_value (querystring_stringify (JObj (obj_set ps ''x_cg_pro_api_key'' (JStr []))))
         ''x_cg_pro_api_key'' = Some []"
    using sent_value[of "obj_set ps ''x_cg_pro_api_key'' (JStr [])" "''x_cg_pro_api_key''" "JStr []"]
    by (simp add: map_of_obj_set isArray_def)
  show "path (buildRequestOptions (constructor (JStr [])) p JUndefined) = ''/api/v3'' @ p"
    by (rule path_absent) (simp add: isObject_def)
qed

theorem C10_witness:
  "shouldCallPro (constructor (JStr ''''))
   \<and> host (buildRequestOptions (constructor (JStr '''')) ''/coins'' (JObj [])) = ''pro-api.coingecko.com''
   \<and> path (buildRequestOptions (constructor (JStr '''')) ''/coins'' (JObj []))
       = ''/api/v3/coins?x_cg_pro_api_key=''
   \<and> query_value ''x_cg_pro_api_key='' ''x_cg_pro_api_key'' = Some ''''
   \<and> host (buildRequestOptions (constructor JUndefined) ''/coins'' (JObj [])) = ''api.coingecko.com''"
proof -
  have q: "querystring_stringify (JObj (obj_set [] ''x_cg_pro_api_key'' (JStr '''')))
           = ''x_cg_pro_api_key=''"
    by (simp add: eval_defs)
  show ?thesis
    using q C10_configured_iff_not_null [of "constructor (JStr '''')" "''/coins''" "JObj []" "[]"]
    by (simp add: HOST_def PRO_HOST_def constructor_def default_arg_def)
qed

section \<open>The endpoints: warnings and normalising\<close>

lemma and_then_ret [simp]: "and_then (ret a) f = f a"
  by (cases "f a") (simp add: and_then_def ret_def)

lemma lift_Inr [simp]: "lift (Inr a) = ret a"
  by (simp add: lift_def ret_def)

lemma and_then_lift_Inr: "and_then (lift (Inr a)) f = f a"
  by (cases "f a") (simp add: and_then_def lift_def)

lemma and_then_lift_Inl [simp]: "and_then (lift (Inl e)) f = ([], Inl e)"
  by (simp add: and_then_def lift_def)

lemma and_then_warn:
  "and_then (warn_if b t d) f = (if b then ((t, d) # fst (f ()), snd (f ())) else f ())"
  by (cases "f ()") (simp add: and_then_def warn_if_def WARN_def ret_def)

lemma issued_ret [simp]: "issued (ret s) = Some (options s)"
  by (simp add: issued_def ret_def)

lemma issued_warn [simp]: "issued (and_then (warn_if b t d) f) = issued (f ())"
  by (simp add: and_then_warn issued_def)

lemma issued_require_id [simp]: "issued (and_then (require_id n v) f) = issued (f ())"
  by (simp add: require_id_def)

lemma issued_require_object [simp]: "issued (and_then (require_object p) f) = issued (f ())"
  by (simp add: require_object_def)

lemma warned_require_id:
  "\<not> isString v \<or> isStringEmpty v \<Longrightarrow> id_warning n \<in> set (fst (and_then (require_id n v) f))"
  by (simp add: require_id_def and_then_warn id_warning_def)

lemma warned_later:
  "w \<in> set (fst (f ())) \<Longrightarrow> w \<in> set (fst (and_then (warn_if b t d) f))"
  by (simp add: and_then_warn)

lemma warned_after_id:
  "w \<in> set (fst (f ())) \<Longrightarrow> w \<in> set (fst (and_then (require_id n v) f))"
  by (simp add: require_id_def warned_later)

lemma warned_after_object:
  "w \<in> set (fst (f ())) \<Longrightarrow> w \<in> set (fst (and_then (require_object p) f))"
  by (simp add: require_object_def warned_later)

lemma never_raises:
  "snd (warn_if b t d) = Inr ()" "snd (require_id n v) = Inr ()" "snd (require_object p) = Inr ()"
  by (simp_all add: warn_if_def WARN_def ret_def require_id_def require_object_def)

text \<open>The normalising statements on a plain object.\<close>

lemma join_array_obj:
  "join_array k (JObj ps)
   = ret (JObj (case obj_get ps k of
                  JArr xs \<Rightarrow> obj_set ps k (JStr (array_join xs '',''))
                | _ \<Rightarrow> ps))"
  by (cases "obj_get ps k") (simp_all add: join_array_def isArray_def)

lemma default_usd_obj:
  "default_usd k (JObj ps)
   = ret (JObj (if \<not> isString (obj_get ps k) \<or> isStringEmpty (obj_get ps k)
                then obj_set ps k (JStr ''usd'') else ps))"
  by (simp add: default_usd_def)

lemma default_days_obj:
  "default_days (JObj ps)
   = ret (JObj (if loosely_undefined (obj_get ps ''days'')
                then obj_set ps ''days'' (JNum 1) else ps))"
  by (simp add: default_days_def)

lemma issued_require_number [simp]:
  "issued (and_then (require_number k (JObj ps)) f) = issued (f ())"
  by (simp add: require_number_def)

lemma issued_require_present [simp]:
  "issued (and_then (require_present k (JObj ps)) f) = issued (f ())"
  by (simp add: require_present_def)

lemma issued_require_date [simp]:
  "issued (and_then (require_date (JObj ps)) f) = issued (f ())"
  by (simp add: require_date_def)

lemma options_request [simp]: "options (request this p params) = buildRequestOptions this p params"
  by (simp add: request_def)

lemma path_prefix: "prefix (''/api/v3'' @ p) (path (buildRequestOptions this p params))"
  by (simp add: buildRequestOptions_def API_VERSION_def split: option.splits)

lemmas normal_forms =
  join_array_obj default_usd_obj default_days_obj Let_def

lemma default_arg_defined: "i \<noteq> JUndefined \<Longrightarrow> default_arg i d = i"
  by (simp add: default_arg_def)

lemma coins_fetch_warns:
  "\<not> isString i \<or> isStringEmpty i \<Longrightarrow> id_warning ''coinId'' \<in> set (fst (coins_fetch this i params))"
  by (simp add: coins_fetch_def Let_def warned_require_id warned_after_id warned_after_object default_arg_defined)

lemma coins_fetchTickers_warns:
  "\<not> isString i \<or> isStringEmpty i \<Longrightarrow> id_warning ''coinId'' \<in> set (fst (coins_fetchTickers this i params))"
  by (simp add: coins_fetchTickers_def Let_def warned_require_id warned_after_id warned_after_object default_arg_defined)

lemma coins_fetchHistory_warns:
  "\<not> isString i \<or> isStringEmpty i \<Longrightarrow> id_warning ''coinId'' \<in> set (fst (coins_fetchHistory this i params))"
  by (simp add: coins_fetchHistory_def Let_def warned_require_id warned_after_id warned_after_object default_arg_defined)

lemma coins_fetchMarketChart_warns:
  "\<not> isString i \<or> isStringEmpty i \<Longrightarrow> id_warning ''coinId'' \<in> set (fst (coins_fetchMarketChart this i params))"
  by (simp add: coins_fetchMarketChart_def Let_def warned_require_id warned_after_id warned_after_object default_arg_defined)

lemma coins_fetchMarketChartRange_warns:
  "\<not> isString i \<or> isStringEmpty i \<Longrightarrow> id_warning ''coinId'' \<in> set (fst (coins_fetchMarketChartRange this i params))"
  by (simp add: coins_fetchMarketChartRange_def Let_def warned_require_id warned_after_id warned_after_object default_arg_defined)

lemma coins_fetchCoinContractInfo_warns:
  "\<not> isString i \<or> isStringEmpty i \<Longrightarrow> id_warning ''contractAddress'' \<in> set (fst (coins_fetchCoinContractInfo this i a))"
  by (simp add: coins_fetchCoinContractInfo_def Let_def warned_require_id warned_after_id warned_after_object default_arg_defined)

lemma coins_fetchCoinContractMarketChart_warns:
  "\<not> isString i \<or> isStringEmpty i \<Longrightarrow> id_warning ''contractAddress'' \<in> set (fst (coins_fetchCoinContractMarketChart this i a params))"
  by (simp add: coins_fetchCoinContractMarketChart_def Let_def warned_require_id warned_after_id warned_after_object default_arg_defined)

lemma coins_fetchCoinContractMarketChartRange_warns:
  "\<not> isString i \<or> isStringEmpty i \<Longrightarrow> id_warning ''contractAddress'' \<in> set (fst (coins_fetchCoinContractMarketChartRange this i a params))"
  by (simp add: coins_fetchCoinContractMarketChartRange_def Let_def warned_require_id warned_after_id warned_after_object default_arg_defined)

lemma exchanges_fetch_warns:
  "\<not> isString i \<or> isStringEmpty i \<Longrightarrow> id_warning ''exchangeId'' \<in> set (fst (exchanges_fetch this i))"
  by (simp add: exchanges_fetch_def Let_def warned_require_id warned_after_id warned_after_object default_arg_defined)

lemma exchanges_fetchTickers_warns:
  "\<not> isString i \<or> isStringEmpty i \<Longrightarrow> id_warning ''exchangeId'' \<in> set (fst (exchanges_fetchTickers this i params))"
  by (simp add: exchanges_fetchTickers_def Let_def warned_require_id warned_after_id warned_after_object default_arg_defined)

lemma exchanges_fetchVolumeChart_warns:
  "\<not> isString i \<or> isStringEmpty i \<Longrightarrow> id_warning ''exchangeId'' \<in> set (fst (exchanges_fetchVolumeChart this i params))"
  by (simp add: exchanges_fetchVolumeChart_def Let_def warned_require_id warned_after_id warned_after_object default_arg_defined)

lemma indexes_fetch_warns:
  "\<not> isString i \<or> isStringEmpty i \<Longrightarrow> id_warning ''marketId'' \<in> set (fst (indexes_fetch this i a))"
  by (simp add: indexes_fetch_def Let_def warned_require_id warned_after_id warned_after_object default_arg_defined)

lemma derivatives_fetchExchange_warns:
  "\<not> isString i \<or> isStringEmpty i \<Longrightarrow> id_warning ''exchangeId'' \<in> set (fst (derivatives_fetchExchange this i params))"
  by (simp add: derivatives_fetchExchange_def Let_def warned_require_id warned_after_id warned_after_object default_arg_defined)

lemma indexes_fetch_warns2:
  "\<not> isString i \<or> isStringEmpty i \<Longrightarrow> id_warning ''indexId'' \<in> set (fst (indexes_fetch this a i))"
  by (simp add: indexes_fetch_def Let_def warned_require_id warned_after_id warned_after_object default_arg_defined)

lemma coins_fetchCoinContractInfo_warns2:
  "i \<noteq> JUndefined \<Longrightarrow> \<not> isString i \<or> isStringEmpty i \<Longrightarrow> id_warning ''assetPlatform'' \<in> set (fst (coins_fetchCoinContractInfo this a i))"
  by (simp add: coins_fetchCoinContractInfo_def Let_def warned_require_id warned_after_id warned_after_object default_arg_defined)

lemma coins_fetchCoinContractMarketChart_warns2:
  "i \<noteq> JUndefined \<Longrightarrow> \<not> isString i \<or> isStringEmpty i \<Longrightarrow> id_warning ''assetPlatform'' \<in> set (fst (coins_fetchCoinContractMarketChart this a i params))"
  by (simp add: coins_fetchCoinContractMarketChart_def Let_def warned_require_id warned_after_id warned_after_object default_arg_defined)

lemma coins_fetchCoinContractMarketChartRange_warns2:
  "i \<noteq> JUndefined \<Longrightarrow> \<not> isString i \<or> isStringEmpty i \<Longrightarrow> id_warning ''assetPlatform'' \<in> set (fst (coins_fetchCoinContractMarketChartRange this a i params))"
  by (simp add: coins_fetchCoinContractMarketChartRange_def Let_def warned_require_id warned_after_id warned_after_object default_arg_defined)

lemma simple_fetchTokenPrice_warns2:
  "i \<noteq> JUndefined \<Longrightarrow> \<not> isString i \<or> isStringEmpty i \<Longrightarrow> id_warning ''assetPlatform'' \<in> set (fst (simple_fetchTokenPrice this params i))"
  by (simp add: simple_fetchTokenPrice_def Let_def warned_require_id warned_after_id warned_after_object default_arg_defined)


section \<open>The runtime's check of the request path\<close>

lemma invalid_path_Nil [simp]: "\<not> invalid_path []"
  by (simp add: invalid_path_def)

lemma invalid_path_Cons [simp]:
  "invalid_path (c # cs)
   = ((of_char c :: nat) < 33 \<or> 196 \<le> (of_char c :: nat) \<or> invalid_path cs)"
  by (simp add: invalid_path_def)

lemma invalid_path_append [simp]: "invalid_path (x @ y) = (invalid_path x \<or> invalid_path y)"
  by (simp add: invalid_path_def)

text \<open>A query string is escaped, so it never makes the runtime refuse a path.\<close>

lemma unreserved_valid: "unreserved c \<Longrightarrow> \<not> invalid_path [c]"
  by (auto simp: unreserved_def Let_def)

lemma hex_char_valid: "\<not> invalid_path [hex_char n]"
  using hex_char_in[of n] by auto

lemma esc_byte_valid: "\<not> invalid_path (esc_byte c)"
  using unreserved_valid[of c] hex_char_valid by (simp add: esc_byte_def)

lemma qsEscape_valid: "\<not> invalid_path (qsEscape s)"
  unfolding qsEscape_def by (induction s) (simp_all add: esc_byte_valid)

lemma digits_valid: "set s \<subseteq> set ''0123456789'' \<Longrightarrow> \<not> invalid_path s"
  by (induction s) auto

lemma show_nat_valid: "\<not> invalid_path (show_nat n)"
  using show_nat_digits by (rule digits_valid)

lemma show_int_valid: "\<not> invalid_path (show_int n)"
  by (simp add: show_int_def show_nat_valid)

lemma enc_valid: "\<not> invalid_path (encodeStringified v)"
  by (cases v) (simp_all add: qsEscape_valid show_int_valid)

lemma field_valid: "\<not> invalid_path (field k v)"
  by (simp add: field_def qsEscape_valid enc_valid)

lemma fields_of_valid: "x \<in> set (fields_of kv) \<Longrightarrow> \<not> invalid_path x"
  by (cases kv rule: fields_of.cases) (auto simp: field_valid)

lemma join_valid:
  "(\<And>x. x \<in> set xs \<Longrightarrow> \<not> invalid_path x) \<Longrightarrow> \<not> invalid_path sep
   \<Longrightarrow> \<not> invalid_path (join_with sep xs)"
  by (induction sep xs rule: join_with.induct) simp_all

lemma joined_fields_valid: "\<not> invalid_path (join_with ''&'' (concat (map fields_of kvs)))"
  by (rule join_valid) (auto dest: fields_of_valid)

lemma stringify_valid: "\<not> invalid_path (querystring_stringify v)"
  by (cases v) (simp_all add: joined_fields_valid)

lemma built_path_valid:
  "invalid_path (path (buildRequestOptions this p params)) = invalid_path p"
  by (simp add: buildRequestOptions_def API_VERSION_def query_of_def Let_def stringify_valid)

lemma promise_request_call:
  "promise (request_call this p params)
   = (if invalid_path p then Rejected (TypeError ''Request path contains unescaped characters'')
      else Pending)"
  by (simp add: request_call_def https_request_def built_path_valid request_def)

lemma request_call_accepted:
  "\<not> invalid_path p \<Longrightarrow> request_call this p params = request this p params"
  by (simp add: request_call_def https_request_def built_path_valid)

lemma text_of_invalid_values:
  "\<not> invalid_path (ToString JUndefined)" "\<not> invalid_path (ToString JNull)"
  "\<not> invalid_path (ToString (JBool b))" "\<not> invalid_path (ToString (JNum n))"
  "\<not> invalid_path (ToString (JStr []))" "invalid_path (ToString (JObj ps))"
  by (simp_all add: show_int_valid)

lemma snd_ret: "snd (ret x) = Inr x"
  by (simp add: ret_def)

lemma snd_warn: "snd (and_then (warn_if b t d) f) = snd (f ())"
  by (simp add: and_then_warn)

lemma snd_require_id: "snd (and_then (require_id n v) f) = snd (f ())"
  by (simp add: require_id_def snd_warn)

lemma snd_require_object: "snd (and_then (require_object p) f) = snd (f ())"
  by (simp add: require_object_def snd_warn)

lemma snd_require_number: "snd (and_then (require_number k (JObj ps)) f) = snd (f ())"
  by (simp add: require_number_def snd_warn)

lemma snd_require_present: "snd (and_then (require_present k (JObj ps)) f) = snd (f ())"
  by (simp add: require_present_def snd_warn)

lemma snd_require_date: "snd (and_then (require_date (JObj ps)) f) = snd (f ())"
  by (simp add: require_date_def snd_warn)

lemma sent_at_request:
  "snd c = Inr (request_call this p q) \<Longrightarrow> sent_at c p = (\<not> invalid_path p)"
  using path_prefix[of p this q] by (simp add: sent_at_def promise_request_call)

lemma refused_at_request:
  "snd c = Inr (request_call this p q) \<Longrightarrow> refused_at c p = invalid_path p"
  using path_prefix[of p this q] by (simp add: refused_at_def promise_request_call)

lemmas reaches_request =
  snd_ret snd_warn snd_require_id snd_require_object snd_require_number snd_require_present
  snd_require_date sent_at_request refused_at_request default_arg_defined

lemma declared_cases:
  "params_declared params \<Longrightarrow> \<exists>ps. default_arg params (JObj []) = JObj ps"
  by (cases params) (auto simp: default_arg_def params_declared_def)

lemma and_then_throw: "and_then (w, Inl e) f = (w, Inl e)"
  by (simp add: and_then_def)

lemma null_statements:
  "join_array k JNull = ([], Inl (TypeError ''Cannot read properties of null''))"
  "default_usd k JNull = ([], Inl (TypeError ''Cannot read properties of null''))"
  "require_date JNull = ([], Inl (TypeError ''Cannot read properties of null''))"
  "require_present k JNull = ([], Inl (TypeError ''Cannot read properties of null''))"
  by (simp_all add: join_array_def default_usd_def require_date_def require_present_def)

text \<open>
  Each endpoint with an identifier hands the path with the text of its identifiers
  to \<open>_request\<close>, and the runtime decides by that text.
\<close>

lemma coins_fetch_outcome:
  "if invalid_path (ToString i)
   then refused_at (coins_fetch this i params :: 'j req_state comp)
          (''/coins/'' @ ToString i)
   else sent_at (coins_fetch this i params :: 'j req_state comp)
          (''/coins/'' @ ToString i)"
  by (simp add: coins_fetch_def Let_def reaches_request)

lemma coins_fetchTickers_outcome:
  assumes "params_declared params"
  shows "if invalid_path (ToString i)
   then refused_at (coins_fetchTickers this i params :: 'j req_state comp)
          (''/coins/'' @ ToString i @ ''/tickers'')
   else sent_at (coins_fetchTickers this i params :: 'j req_state comp)
          (''/coins/'' @ ToString i @ ''/tickers'')"
proof -
  obtain ps where ps: "default_arg params (JObj []) = JObj ps"
    using assms declared_cases by blast
  show ?thesis
    using assms by (simp add: coins_fetchTickers_def ps normal_forms reaches_request)
qed

lemma coins_fetchHistory_outcome:
  assumes "params_declared params"
  shows "if invalid_path (ToString i)
   then refused_at (coins_fetchHistory this i params :: 'j req_state comp)
          (''/coins/'' @ ToString i @ ''/history'')
   else sent_at (coins_fetchHistory this i params :: 'j req_state comp)
          (''/coins/'' @ ToString i @ ''/history'')"
proof -
  obtain ps where ps: "default_arg params (JObj []) = JObj ps"
    using assms declared_cases by blast
  show ?thesis
    using assms by (simp add: coins_fetchHistory_def ps normal_forms reaches_request)
qed

lemma coins_fetchMarketChart_outcome:
  assumes "params_declared params"
  shows "if invalid_path (ToString i)
   then refused_at (coins_fetchMarketChart this i params :: 'j req_state comp)
          (''/coins/'' @ ToString i @ ''/market_chart'')
   else sent_at (coins_fetchMarketChart this i params :: 'j req_state comp)
          (''/coins/'' @ ToString i @ ''/market_chart'')"
proof -
  obtain ps where ps: "default_arg params (JObj []) = JObj ps"
    using assms declared_cases by blast
  show ?thesis
    using assms by (simp add: coins_fetchMarketChart_def ps normal_forms reaches_request)
qed

lemma coins_fetchMarketChartRange_outcome:
  assumes "params_declared params"
  shows "if invalid_path (ToString i)
   then refused_at (coins_fetchMarketChartRange this i params :: 'j req_state comp)
          (''/coins/'' @ ToString i @ ''/market_chart/range'')
   else sent_at (coins_fetchMarketChartRange this i params :: 'j req_state comp)
          (''/coins/'' @ ToString i @ ''/market_chart/range'')"
proof -
  obtain ps where ps: "default_arg params (JObj []) = JObj ps"
    using assms declared_cases by blast
  show ?thesis
    using assms by (simp add: coins_fetchMarketChartRange_def ps normal_forms reaches_request)
qed

lemma coins_fetchCoinContractInfo_outcome:
  "if invalid_path (ToString (default_arg a (JStr ''ethereum''))) \<or> invalid_path (ToString i)
   then refused_at (coins_fetchCoinContractInfo this i a :: 'j req_state comp)
          (''/coins/'' @ ToString (default_arg a (JStr ''ethereum'')) @ ''/contract/'' @ ToString i)
   else sent_at (coins_fetchCoinContractInfo this i a :: 'j req_state comp)
          (''/coins/'' @ ToString (default_arg a (JStr ''ethereum'')) @ ''/contract/'' @ ToString i)"
  by (simp add: coins_fetchCoinContractInfo_def Let_def reaches_request)

lemma coins_fetchCoinContractMarketChart_outcome:
  assumes "params_declared params"
  shows "if invalid_path (ToString (default_arg a (JStr ''ethereum''))) \<or> invalid_path (ToString i)
   then refused_at (coins_fetchCoinContractMarketChart this i a params :: 'j req_state comp)
          (''/coins/'' @ ToString (default_arg a (JStr ''ethereum'')) @ ''/contract/'' @ ToString i @ ''/market_chart'')
   else sent_at (coins_fetchCoinContractMarketChart this i a params :: 'j req_state comp)
          (''/coins/'' @ ToString (default_arg a (JStr ''ethereum'')) @ ''/contract/'' @ ToString i @ ''/market_chart'')"
proof -
  obtain ps where ps: "default_arg params (JObj []) = JObj ps"
    using assms declared_cases by blast
  show ?thesis
    using assms by (simp add: coins_fetchCoinContractMarketChart_def ps normal_forms reaches_request)
qed

lemma coins_fetchCoinContractMarketChartRange_outcome:
  assumes "params_declared params"
  shows "if invalid_path (ToString (default_arg a (JStr ''ethereum''))) \<or> invalid_path (ToString i)
   then refused_at (coins_fetchCoinContractMarketChartRange this i a params :: 'j req_state comp)
          (''/coins/'' @ ToString (default_arg a (JStr ''ethereum'')) @ ''/contract/'' @ ToString i @ ''/market_chart/range'')
   else sent_at (coins_fetchCoinContractMarketChartRange this i a params :: 'j req_state comp)
          (''/coins/'' @ ToString (default_arg a (JStr ''ethereum'')) @ ''/contract/'' @ ToString i @ ''/market_chart/range'')"
proof -
  obtain ps where ps: "default_arg params (JObj []) = JObj ps"
    using assms declared_cases by blast
  show ?thesis
    using assms by (simp add: coins_fetchCoinContractMarketChartRange_def ps normal_forms reaches_request)
qed

lemma exchanges_fetch_outcome:
  "if invalid_path (ToString i)
   then refused_at (exchanges_fetch this i :: 'j req_state comp)
          (''/exchanges/'' @ ToString i)
   else sent_at (exchanges_fetch this i :: 'j req_state comp)
          (''/exchanges/'' @ ToString i)"
  by (simp add: exchanges_fetch_def Let_def reaches_request)

lemma exchanges_fetchTickers_outcome:
  assumes "params_declared params"
  shows "if invalid_path (ToString i)
   then refused_at (exchanges_fetchTickers this i params :: 'j req_state comp)
          (''/exchanges/'' @ ToString i @ ''/tickers'')
   else sent_at (exchanges_fetchTickers this i params :: 'j req_state comp)
          (''/exchanges/'' @ ToString i @ ''/tickers'')"
proof -
  obtain ps where ps: "default_arg params (JObj []) = JObj ps"
    using assms declared_cases by blast
  show ?thesis
    using assms by (simp add: exchanges_fetchTickers_def ps normal_forms reaches_request)
qed

lemma exchanges_fetchVolumeChart_outcome:
  "if invalid_path (ToString i)
   then refused_at (exchanges_fetchVolumeChart this i params :: 'j req_state comp)
          (''/exchanges/'' @ ToString i @ ''/volume_chart'')
   else sent_at (exchanges_fetchVolumeChart this i params :: 'j req_state comp)
          (''/exchanges/'' @ ToString i @ ''/volume_chart'')"
  by (simp add: exchanges_fetchVolumeChart_def Let_def reaches_request)

lemma indexes_fetch_outcome:
  "if invalid_path (ToString i) \<or> invalid_path (ToString a)
   then refused_at (indexes_fetch this i a :: 'j req_state comp)
          (''/indexes/'' @ ToString i @ ''/'' @ ToString a)
   else sent_at (indexes_fetch this i a :: 'j req_state comp)
          (''/indexes/'' @ ToString i @ ''/'' @ ToString a)"
  by (simp add: indexes_fetch_def Let_def reaches_request)

lemma derivatives_fetchExchange_outcome:
  "if invalid_path (ToString i)
   then refused_at (derivatives_fetchExchange this i params :: 'j req_state comp)
          (''/derivatives/exchanges/'' @ ToString i)
   else sent_at (derivatives_fetchExchange this i params :: 'j req_state comp)
          (''/derivatives/exchanges/'' @ ToString i)"
  by (simp add: derivatives_fetchExchange_def Let_def reaches_request)

lemma indexes_fetch_outcome2:
  "if invalid_path (ToString a) \<or> invalid_path (ToString i)
   then refused_at (indexes_fetch this a i :: 'j req_state comp)
          (''/indexes/'' @ ToString a @ ''/'' @ ToString i)
   else sent_at (indexes_fetch this a i :: 'j req_state comp)
          (''/indexes/'' @ ToString a @ ''/'' @ ToString i)"
  by (simp add: indexes_fetch_def Let_def reaches_request)

lemma coins_fetchCoinContractInfo_outcome2:
  assumes "i \<noteq> JUndefined"
  shows "if invalid_path (ToString i) \<or> invalid_path (ToString a)
   then refused_at (coins_fetchCoinContractInfo this a i :: 'j req_state comp)
          (''/coins/'' @ ToString i @ ''/contract/'' @ ToString a)
   else sent_at (coins_fetchCoinContractInfo this a i :: 'j req_state comp)
          (''/coins/'' @ ToString i @ ''/contract/'' @ ToString a)"
  using assms by (simp add: coins_fetchCoinContractInfo_def Let_def reaches_request)

lemma coins_fetchCoinContractMarketChart_outcome2:
  assumes "i \<noteq> JUndefined" and "params_declared params"
  shows "if invalid_path (ToString i) \<or> invalid_path (ToString a)
   then refused_at (coins_fetchCoinContractMarketChart this a i params :: 'j req_state comp)
          (''/coins/'' @ ToString i @ ''/contract/'' @ ToString a @ ''/market_chart'')
   else sent_at (coins_fetchCoinContractMarketChart this a i params :: 'j req_state comp)
          (''/coins/'' @ ToString i @ ''/contract/'' @ ToString a @ ''/market_chart'')"
proof -
  obtain ps where ps: "default_arg params (JObj []) = JObj ps"
    using assms declared_cases by blast
  show ?thesis
    using assms by (simp add: coins_fetchCoinContractMarketChart_def ps normal_forms reaches_request)
qed

lemma coins_fetchCoinContractMarketChartRange_outcome2:
  assumes "i \<noteq> JUndefined" and "params_declared params"
  shows "if invalid_path (ToString i) \<or> invalid_path (ToString a)
   then refused_at (coins_fetchCoinContractMarketChartRange this a i params :: 'j req_state comp)
          (''/coins/'' @ ToString i @ ''/contract/'' @ ToString a @ ''/market_chart/range'')
   else sent_at (coins_fetchCoinContractMarketChartRange this a i params :: 'j req_state comp)
          (''/coins/'' @ ToString i @ ''/contract/'' @ ToString a @ ''/market_chart/range'')"
proof -
  obtain ps where ps: "default_arg params (JObj []) = JObj ps"
    using assms declared_cases by blast
  show ?thesis
    using assms by (simp add: coins_fetchCoinContractMarketChartRange_def ps normal_forms reaches_request)
qed

lemma simple_fetchTokenPrice_outcome2:
  assumes "i \<noteq> JUndefined" and "params_declared params"
  shows "if invalid_path (ToString i)
   then refused_at (simple_fetchTokenPrice this params i :: 'j req_state comp)
          (''/simple/token_price/'' @ ToString i)
   else sent_at (simple_fetchTokenPrice this params i :: 'j req_state comp)
          (''/simple/token_price/'' @ ToString i)"
proof -
  obtain ps where ps: "default_arg params (JObj []) = JObj ps"
    using assms declared_cases by blast
  show ?thesis
    using assms by (simp add: simple_fetchTokenPrice_def ps normal_forms reaches_request)
qed

text \<open>With \<open>null\<close> for the parameter argument the first property access throws.\<close>

lemma coins_fetchTickers_null:
  "\<exists>m. snd (coins_fetchTickers this i JNull :: 'j req_state comp) = Inl (TypeError m)"
  by (simp add: coins_fetchTickers_def Let_def default_arg_def null_statements and_then_throw snd_require_id
        snd_require_object)

lemma coins_fetchHistory_null:
  "\<exists>m. snd (coins_fetchHistory this i JNull :: 'j req_state comp) = Inl (TypeError m)"
  by (simp add: coins_fetchHistory_def Let_def default_arg_def null_statements and_then_throw snd_require_id
        snd_require_object)

lemma coins_fetchMarketChart_null:
  "\<exists>m. snd (coins_fetchMarketChart this i JNull :: 'j req_state comp) = Inl (TypeError m)"
  by (simp add: coins_fetchMarketChart_def Let_def default_arg_def null_statements and_then_throw snd_require_id
        snd_require_object)

lemma coins_fetchMarketChartRange_null:
  "\<exists>m. snd (coins_fetchMarketChartRange this i JNull :: 'j req_state comp) = Inl (TypeError m)"
  by (simp add: coins_fetchMarketChartRange_def Let_def default_arg_def null_statements and_then_throw snd_require_id
        snd_require_object)

lemma coins_fetchCoinContractMarketChart_null:
  "\<exists>m. snd (coins_fetchCoinContractMarketChart this i a JNull :: 'j req_state comp) = Inl (TypeError m)"
  by (simp add: coins_fetchCoinContractMarketChart_def Let_def default_arg_def null_statements and_then_throw snd_require_id
        snd_require_object)

lemma coins_fetchCoinContractMarketChartRange_null:
  "\<exists>m. snd (coins_fetchCoinContractMarketChartRange this i a JNull :: 'j req_state comp) = Inl (TypeError m)"
  by (simp add: coins_fetchCoinContractMarketChartRange_def Let_def default_arg_def null_statements and_then_throw snd_require_id
        snd_require_object)

lemma exchanges_fetchTickers_null:
  "\<exists>m. snd (exchanges_fetchTickers this i JNull :: 'j req_state comp) = Inl (TypeError m)"
  by (simp add: exchanges_fetchTickers_def Let_def default_arg_def null_statements and_then_throw snd_require_id
        snd_require_object)

lemma simple_fetchTokenPrice_null:
  "\<exists>m. snd (simple_fetchTokenPrice this JNull i :: 'j req_state comp) = Inl (TypeError m)"
  by (simp add: simple_fetchTokenPrice_def Let_def default_arg_def null_statements and_then_throw snd_require_id
        snd_require_object)

section \<open>The endpoints: identifiers\<close>

text \<open>
  Claim C9 as stated fails for an object as identifier. \<open>coins.fetch({})\<close> emits the
  warning and builds the path \<open>/api/v3/coins/[object Object]?\<close>; the space in it makes
  \<open>https.request\<close> throw inside the executor of the promise, so the call returns a
  promise that is already rejected and no request is sent. It fails as well where the
  check of the parameter argument is only a warning: \<open>coins.fetchTickers(undefined, null)\<close>
  emits its warning and then throws on reading a property of \<open>null\<close>.
\<close>

theorem C9_counterexample:
  "\<not> isString (JObj [])
   \<and> fst (coins_fetch (constructor JUndefined) (JObj []) JUndefined :: jsval req_state comp)
       = [id_warning ''coinId'']
   \<and> snd (coins_fetch (constructor JUndefined) (JObj []) JUndefined :: jsval req_state comp)
       = Inr \<lparr>options = \<lparr>path = ''/api/v3/coins/[object Object]?'', http_method = ''GET'',
                          host = ''api.coingecko.com'', port = 443, timeout = 30000\<rparr>,
               promise = Rejected (TypeError ''Request path contains unescaped characters''),
               aborted = False, res = None, emitted = []\<rparr>
   \<and> \<not> sent_at (coins_fetch (constructor JUndefined) (JObj []) JUndefined
                   :: jsval req_state comp) ''/coins/[object Object]''
   \<and> fst (coins_fetchTickers (constructor JUndefined) JUndefined JNull :: jsval req_state comp)
       = [id_warning ''coinId'']
   \<and> snd (coins_fetchTickers (constructor JUndefined) JUndefined JNull :: jsval req_state comp)
       = Inl (TypeError ''Cannot read properties of null'')"
proof -
  have n: "\<not> isString (JObj [])"
    by (simp add: isString_def)
  have w: "fst (coins_fetch (constructor JUndefined) (JObj []) JUndefined :: jsval req_state comp)
       = [id_warning ''coinId'']"
    by (simp add: coins_fetch_def require_id_def and_then_warn isString_def id_warning_def
          ret_def default_arg_def)
  have s: "snd (coins_fetch (constructor JUndefined) (JObj []) JUndefined :: jsval req_state comp)
       = Inr \<lparr>options = \<lparr>path = ''/api/v3/coins/[object Object]?'', http_method = ''GET'',
                          host = ''api.coingecko.com'', port = 443, timeout = 30000\<rparr>,
               promise = Rejected (TypeError ''Request path contains unescaped characters''),
               aborted = False, res = None, emitted = []\<rparr>"
    by (simp add: coins_fetch_def snd_require_id snd_ret request_call_def https_request_def
          request_def buildRequestOptions_def query_of_def insertApiKeyIntoParams_def
          API_VERSION_def isObject_def shouldCallPro_def resolveHost_def constructor_def
          default_arg_def HOST_def TIMEOUT_def)
  have r: "\<not> sent_at (coins_fetch (constructor JUndefined) (JObj []) JUndefined
                   :: jsval req_state comp) ''/coins/[object Object]''"
    by (simp add: sent_at_def s)
  have w': "fst (coins_fetchTickers (constructor JUndefined) JUndefined JNull
                  :: jsval req_state comp) = [id_warning ''coinId'']"
    by (simp add: coins_fetchTickers_def require_id_def and_then_warn isString_def
          id_warning_def default_arg_def null_statements and_then_throw)
  have t: "snd (coins_fetchTickers (constructor JUndefined) JUndefined JNull
                  :: jsval req_state comp) = Inl (TypeError ''Cannot read properties of null'')"
    by (simp add: coins_fetchTickers_def snd_require_id default_arg_def null_statements
          and_then_throw)
  show ?thesis
    using n w s r w' t by simp
qed

text \<open>
  Claim C9, as the code has it. Let \<open>i\<close> be an identifier that fails the check of the
  endpoints: not a string, or an empty one. The check itself never throws, and every
  endpoint that takes a required identifier emits the warning for it, builds the path
  with the text of \<open>i\<close> in the place of the identifier and hands it to \<open>_request\<close>.
  What follows is decided by the runtime: if the text of an identifier in the path
  has a character that \<open>https.request\<close> refuses, the call returns a promise that is
  already rejected and nothing is sent; otherwise the request is sent. The text of
  \<open>undefined\<close>, of \<open>null\<close>, of a boolean, of a number and of the empty string is
  accepted; the text of an object is refused. The endpoints that read or store
  properties of their parameter argument do so for an argument that is left out or
  is an object; with \<open>null\<close> the property access throws after the warning, before
  \<open>_request\<close> is reached. The identifiers are values that convert to text. An asset
  platform that is left out takes its default \<open>ethereum\<close> and is then no invalid
  identifier, so it is stated for a platform that is given. A call whose path is
  accepted returns in the state \<open>request\<close>, to which the runtime delivers its events.
\<close>

theorem C9_invalid_identifier_outcome:
  assumes "\<not> isString i \<or> isStringEmpty i" and "converts i" and "converts a"
  shows "snd (require_id name i) = Inr ()
   \<and> (id_warning ''coinId'' \<in> set (fst (coins_fetch this i params :: 'j req_state comp))
      \<and> (if invalid_path (ToString i)
          then refused_at (coins_fetch this i params :: 'j req_state comp)
                 (''/coins/'' @ ToString i)
          else sent_at (coins_fetch this i params :: 'j req_state comp)
                 (''/coins/'' @ ToString i)))
   \<and> (id_warning ''coinId'' \<in> set (fst (coins_fetchTickers this i params :: 'j req_state comp))
      \<and> (params_declared params \<longrightarrow>
        (if invalid_path (ToString i)
          then refused_at (coins_fetchTickers this i params :: 'j req_state comp)
                 (''/coins/'' @ ToString i @ ''/tickers'')
          else sent_at (coins_fetchTickers this i params :: 'j req_state comp)
                 (''/coins/'' @ ToString i @ ''/tickers'')))
      \<and> (\<exists>m. snd (coins_fetchTickers this i JNull :: 'j req_state comp) = Inl (TypeError m)))
   \<and> (id_warning ''coinId'' \<in> set (fst (coins_fetchHistory this i params :: 'j req_state comp))
      \<and> (params_declared params \<longrightarrow>
        (if invalid_path (ToString i)
          then refused_at (coins_fetchHistory this i params :: 'j req_state comp)
                 (''/coins/'' @ ToString i @ ''/history'')
          else sent_at (coins_fetchHistory this i params :: 'j req_state comp)
                 (''/coins/'' @ ToString i @ ''/history'')))
      \<and> (\<exists>m. snd (coins_fetchHistory this i JNull :: 'j req_state comp) = Inl (TypeError m)))
   \<and> (id_warning ''coinId'' \<in> set (fst (coins_fetchMarketChart this i params :: 'j req_state comp))
      \<and> (params_declared params \<longrightarrow>
        (if invalid_path (ToString i)
          then refused_at (coins_fetchMarketChart this i params :: 'j req_state comp)
                 (''/coins/'' @ ToString i @ ''/market_chart'')
          else sent_at (coins_fetchMarketChart this i params :: 'j req_state comp)
                 (''/coins/'' @ ToString i @ ''/market_chart'')))
      \<and> (\<exists>m. snd (coins_fetchMarketChart this i JNull :: 'j req_state comp) = Inl (TypeError m)))
   \<and> (id_warning ''coinId'' \<in> set (fst (coins_fetchMarketChartRange this i params :: 'j req_state comp))
      \<and> (params_declared params \<longrightarrow>
        (if invalid_path (ToString i)
          then refused_at (coins_fetchMarketChartRange this i params :: 'j req_state comp)
                 (''/coins/'' @ ToString i @ ''/market_chart/range'')
          else sent_at (coins_fetchMarketChartRange this i params :: 'j req_state comp)
                 (''/coins/'' @ ToString i @ ''/market_chart/range'')))
      \<and> (\<exists>m. snd (coins_fetchMarketChartRange this i JNull :: 'j req_state comp) = Inl (TypeError m)))
   \<and> (id_warning ''contractAddress'' \<in> set (fst (coins_fetchCoinContractInfo this i a :: 'j req_state comp))
      \<and> (if invalid_path (ToString (default_arg a (JStr ''ethereum''))) \<or> invalid_path (ToString i)
          then refused_at (coins_fetchCoinContractInfo this i a :: 'j req_state comp)
                 (''/coins/'' @ ToString (default_arg a (JStr ''ethereum'')) @ ''/contract/'' @ ToString i)
          else sent_at (coins_fetchCoinContractInfo this i a :: 'j req_state comp)
                 (''/coins/'' @ ToString (default_arg a (JStr ''ethereum'')) @ ''/contract/'' @ ToString i)))
   \<and> (id_warning ''contractAddress'' \<in> set (fst (coins_fetchCoinContractMarketChart this i a params :: 'j req_state comp))
      \<and> (params_declared params \<longrightarrow>
        (if invalid_path (ToString (default_arg a (JStr ''ethereum''))) \<or> invalid_path (ToString i)
          then refused_at (coins_fetchCoinContractMarketChart this i a params :: 'j req_state comp)
                 (''/coins/'' @ ToString (default_arg a (JStr ''ethereum'')) @ ''/contract/'' @ ToString i @ ''/market_chart'')
          else sent_at (coins_fetchCoinContractMarketChart this i a params :: 'j req_state comp)
                 (''/coins/'' @ ToString (default_arg a (JStr ''ethereum'')) @ ''/contract/'' @ ToString i @ ''/market_chart'')))
      \<and> (\<exists>m. snd (coins_fetchCoinContractMarketChart this i a JNull :: 'j req_state comp) = Inl (TypeError m)))
   \<and> (id_warning ''contractAddress'' \<in> set (fst (coins_fetchCoinContractMarketChartRange this i a params :: 'j req_state comp))
      \<and> (params_declared params \<longrightarrow>
        (if invalid_path (ToString (default_arg a (JStr ''ethereum''))) \<or> invalid_path (ToString i)
          then refused_at (coins_fetchCoinContractMarketChartRange this i a params :: 'j req_state comp)
                 (''/coins/'' @ ToString (default_arg a (JStr ''ethereum'')) @ ''/contract/'' @ ToString i @ ''/market_chart/range'')
          else sent_at (coins_fetchCoinContractMarketChartRange this i a params :: 'j req_state comp)
                 (''/coins/'' @ ToString (default_arg a (JStr ''ethereum'')) @ ''/contract/'' @ ToString i @ ''/market_chart/range'')))
      \<and> (\<exists>m. snd (coins_fetchCoinContractMarketChartRange this i a JNull :: 'j req_state comp) = Inl (TypeError m)))
   \<and> (id_warning ''exchangeId'' \<in> set (fst (exchanges_fetch this i :: 'j req_state comp))
      \<and> (if invalid_path (ToString i)
          then refused_at (exchanges_fetch this i :: 'j req_state comp)
                 (''/exchanges/'' @ ToString i)
          else sent_at (exchanges_fetch this i :: 'j req_state comp)
                 (''/exchanges/'' @ ToString i)))
   \<and> (id_warning ''exchangeId'' \<in> set (fst (exchanges_fetchTickers this i params :: 'j req_state comp))
      \<and> (params_declared params \<longrightarrow>
        (if invalid_path (ToString i)
          then refused_at (exchanges_fetchTickers this i params :: 'j req_state comp)
                 (''/exchanges/'' @ ToString i @ ''/tickers'')
          else sent_at (exchanges_fetchTickers this i params :: 'j req_state comp)
                 (''/exchanges/'' @ ToString i @ ''/tickers'')))
      \<and> (\<exists>m. snd (exchanges_fetchTickers this i JNull :: 'j req_state comp) = Inl (TypeError m)))
   \<and> (id_warning ''exchangeId'' \<in> set (fst (exchanges_fetchVolumeChart this i params :: 'j req_state comp))
      \<and> (if invalid_path (ToString i)
          then refused_at (exchanges_fetchVolumeChart this i params :: 'j req_state comp)
                 (''/exchanges/'' @ ToString i @ ''/volume_chart'')
          else sent_at (exchanges_fetchVolumeChart this i params :: 'j req_state comp)
                 (''/exchanges/'' @ ToString i @ ''/volume_chart'')))
   \<and> (id_warning ''marketId'' \<in> set (fst (indexes_fetch this i a :: 'j req_state comp))
      \<and> (if invalid_path (ToString i) \<or> invalid_path (ToString a)
          then refused_at (indexes_fetch this i a :: 'j req_state comp)
                 (''/indexes/'' @ ToString i @ ''/'' @ ToString a)
          else sent_at (indexes_fetch this i a :: 'j req_state comp)
                 (''/indexes/'' @ ToString i @ ''/'' @ ToString a)))
   \<and> (id_warning ''exchangeId'' \<in> set (fst (derivatives_fetchExchange this i params :: 'j req_state comp))
      \<and> (if invalid_path (ToString i)
          then refused_at (derivatives_fetchExchange this i params :: 'j req_state comp)
                 (''/derivatives/exchanges/'' @ ToString i)
          else sent_at (derivatives_fetchExchange this i params :: 'j req_state comp)
                 (''/derivatives/exchanges/'' @ ToString i)))
   \<and> (id_warning ''indexId'' \<in> set (fst (indexes_fetch this a i :: 'j req_state comp))
      \<and> (if invalid_path (ToString a) \<or> invalid_path (ToString i)
          then refused_at (indexes_fetch this a i :: 'j req_state comp)
                 (''/indexes/'' @ ToString a @ ''/'' @ ToString i)
          else sent_at (indexes_fetch this a i :: 'j req_state comp)
                 (''/indexes/'' @ ToString a @ ''/'' @ ToString i)))
   \<and> (i \<noteq> JUndefined \<longrightarrow>
      id_warning ''assetPlatform'' \<in> set (fst (coins_fetchCoinContractInfo this a i :: 'j req_state comp))
      \<and> (if invalid_path (ToString i) \<or> invalid_path (ToString a)
          then refused_at (coins_fetchCoinContractInfo this a i :: 'j req_state comp)
                 (''/coins/'' @ ToString i @ ''/contract/'' @ ToString a)
          else sent_at (coins_fetchCoinContractInfo this a i :: 'j req_state comp)
                 (''/coins/'' @ ToString i @ ''/contract/'' @ ToString a)))
   \<and> (i \<noteq> JUndefined \<longrightarrow>
      id_warning ''assetPlatform'' \<in> set (fst (coins_fetchCoinContractMarketChart this a i params :: 'j req_state comp))
      \<and> (params_declared params \<longrightarrow>
        (if invalid_path (ToString i) \<or> invalid_path (ToString a)
          then refused_at (coins_fetchCoinContractMarketChart this a i params :: 'j req_state comp)
                 (''/coins/'' @ ToString i @ ''/contract/'' @ ToString a @ ''/market_chart'')
          else sent_at (coins_fetchCoinContractMarketChart this a i params :: 'j req_state comp)
                 (''/coins/'' @ ToString i @ ''/contract/'' @ ToString a @ ''/market_chart''))))
   \<and> (i \<noteq> JUndefined \<longrightarrow>
      id_warning ''assetPlatform'' \<in> set (fst (coins_fetchCoinContractMarketChartRange this a i params :: 'j req_state comp))
      \<and> (params_declared params \<longrightarrow>
        (if invalid_path (ToString i) \<or> invalid_path (ToString a)
          then refused_at (coins_fetchCoinContractMarketChartRange this a i params :: 'j req_state comp)
                 (''/coins/'' @ ToString i @ ''/contract/'' @ ToString a @ ''/market_chart/range'')
          else sent_at (coins_fetchCoinContractMarketChartRange this a i params :: 'j req_state comp)
                 (''/coins/'' @ ToString i @ ''/contract/'' @ ToString a @ ''/market_chart/range''))))
   \<and> (i \<noteq> JUndefined \<longrightarrow>
      id_warning ''assetPlatform'' \<in> set (fst (simple_fetchTokenPrice this params i :: 'j req_state comp))
      \<and> (params_declared params \<longrightarrow>
        (if invalid_path (ToString i)
          then refused_at (simple_fetchTokenPrice this params i :: 'j req_state comp)
                 (''/simple/token_price/'' @ ToString i)
          else sent_at (simple_fetchTokenPrice this params i :: 'j req_state comp)
                 (''/simple/token_price/'' @ ToString i)))
      \<and> (\<exists>m. snd (simple_fetchTokenPrice this JNull i :: 'j req_state comp) = Inl (TypeError m)))
   \<and> \<not> invalid_path (ToString JUndefined) \<and> \<not> invalid_path (ToString JNull)
   \<and> \<not> invalid_path (ToString (JBool b)) \<and> \<not> invalid_path (ToString (JNum n))
   \<and> \<not> invalid_path (ToString (JStr [])) \<and> invalid_path (ToString (JObj ps))
   \<and> (\<not> invalid_path p \<longrightarrow> request_call this p q = (request this p q :: 'j req_state))"
  using assms(1)
  by (intro conjI impI)
     ((rule coins_fetch_outcome
        coins_fetchTickers_outcome
        coins_fetchHistory_outcome
        coins_fetchMarketChart_outcome
        coins_fetchMarketChartRange_outcome
        coins_fetchCoinContractInfo_outcome
        coins_fetchCoinContractMarketChart_outcome
        coins_fetchCoinContractMarketChartRange_outcome
        exchanges_fetch_outcome
        exchanges_fetchTickers_outcome
        exchanges_fetchVolumeChart_outcome
        indexes_fetch_outcome
        derivatives_fetchExchange_outcome
        indexes_fetch_outcome2
        coins_fetchCoinContractInfo_outcome2
        coins_fetchCoinContractMarketChart_outcome2
        coins_fetchCoinContractMarketChartRange_outcome2
        simple_fetchTokenPrice_outcome2
        coins_fetchTickers_null
        coins_fetchHistory_null
        coins_fetchMarketChart_null
        coins_fetchMarketChartRange_null
        coins_fetchCoinContractMarketChart_null
        coins_fetchCoinContractMarketChartRange_null
        exchanges_fetchTickers_null
        simple_fetchTokenPrice_null
        text_of_invalid_values request_call_accepted)
      | assumption
      | (blast intro: never_raises
        coins_fetch_warns
        coins_fetchTickers_warns
        coins_fetchHistory_warns
        coins_fetchMarketChart_warns
        coins_fetchMarketChartRange_warns
        coins_fetchCoinContractInfo_warns
        coins_fetchCoinContractMarketChart_warns
        coins_fetchCoinContractMarketChartRange_warns
        exchanges_fetch_warns
        exchanges_fetchTickers_warns
        exchanges_fetchVolumeChart_warns
        indexes_fetch_warns
        derivatives_fetchExchange_warns
        indexes_fetch_warns2
        coins_fetchCoinContractInfo_warns2
        coins_fetchCoinContractMarketChart_warns2
        coins_fetchCoinContractMarketChartRange_warns2
        simple_fetchTokenPrice_warns2))+

theorem C9_witness:
  "\<not> isString JUndefined
   \<and> converts JUndefined
   \<and> params_declared JUndefined
   \<and> id_warning ''coinId''
       \<in> set (fst (coins_fetch (constructor JUndefined) JUndefined JUndefined
                     :: jsval req_state comp))
   \<and> sent_at (coins_fetch (constructor JUndefined) JUndefined JUndefined :: jsval req_state comp)
       ''/coins/undefined''
   \<and> snd (coins_fetch (constructor JUndefined) JUndefined JUndefined :: jsval req_state comp)
       = Inr (request (constructor JUndefined) ''/coins/undefined'' (JObj []))
   \<and> id_warning ''coinId''
       \<in> set (fst (coins_fetchTickers (constructor JUndefined) JUndefined JUndefined
                     :: jsval req_state comp))
   \<and> sent_at (coins_fetchTickers (constructor JUndefined) JUndefined JUndefined
                :: jsval req_state comp) ''/coins/undefined/tickers''
   \<and> \<not> isString (JObj [])
   \<and> converts (JObj [])
   \<and> refused_at (coins_fetch (constructor JUndefined) (JObj []) JUndefined
                   :: jsval req_state comp) ''/coins/[object Object]''
   \<and> JNull \<noteq> JUndefined
   \<and> id_warning ''assetPlatform''
       \<in> set (fst (simple_fetchTokenPrice (constructor JUndefined) JUndefined JNull
                     :: jsval req_state comp))
   \<and> sent_at (simple_fetchTokenPrice (constructor JUndefined) JUndefined JNull
                :: jsval req_state comp) ''/simple/token_price/null''"
proof -
  have h: "\<not> isString JUndefined \<or> isStringEmpty JUndefined"
    by (simp add: isString_def)
  have n: "\<not> isString JUndefined"
    by (simp add: isString_def)
  have c: "converts JUndefined"
    by simp
  have d: "params_declared JUndefined"
    by (simp add: params_declared_def)
  have h': "\<not> isString (JObj []) \<or> isStringEmpty (JObj [])"
    by (simp add: isString_def)
  have n': "\<not> isString (JObj [])"
    by (simp add: isString_def)
  have c': "converts (JObj [])"
    by simp
  have v: "\<not> invalid_path ''/coins/undefined''"
    by simp
  have s: "snd (coins_fetch (constructor JUndefined) JUndefined JUndefined :: jsval req_state comp)
       = Inr (request_call (constructor JUndefined) ''/coins/undefined'' (JObj []))"
    by (simp add: coins_fetch_def snd_require_id snd_ret default_arg_def)
  have u: "sent_at (coins_fetch (constructor JUndefined) JUndefined JUndefined
                     :: jsval req_state comp) ''/coins/undefined''
     \<and> id_warning ''coinId''
       \<in> set (fst (coins_fetch (constructor JUndefined) JUndefined JUndefined
                     :: jsval req_state comp))
     \<and> id_warning ''coinId''
       \<in> set (fst (coins_fetchTickers (constructor JUndefined) JUndefined JUndefined
                     :: jsval req_state comp))
     \<and> sent_at (coins_fetchTickers (constructor JUndefined) JUndefined JUndefined
                :: jsval req_state comp) ''/coins/undefined/tickers''
     \<and> request_call (constructor JUndefined) ''/coins/undefined'' (JObj [])
       = (request (constructor JUndefined) ''/coins/undefined'' (JObj []) :: jsval req_state)"
    using d v
      C9_invalid_identifier_outcome
        [where ?'j = jsval and i = JUndefined and a = JUndefined
           and this = "constructor JUndefined" and params = JUndefined
           and p = "''/coins/undefined''" and q = "JObj []", OF h c c]
    by simp
  have o: "refused_at (coins_fetch (constructor JUndefined) (JObj []) JUndefined
                   :: jsval req_state comp) ''/coins/[object Object]''"
    using C9_invalid_identifier_outcome
        [where ?'j = jsval and i = "JObj []" and a = JUndefined
           and this = "constructor JUndefined" and params = JUndefined, OF h' c' c]
    by simp
  have h'': "\<not> isString JNull \<or> isStringEmpty JNull"
    by (simp add: isString_def)
  have c'': "converts JNull"
    by simp
  have g: "id_warning ''assetPlatform''
       \<in> set (fst (simple_fetchTokenPrice (constructor JUndefined) JUndefined JNull
                     :: jsval req_state comp))
     \<and> sent_at (simple_fetchTokenPrice (constructor JUndefined) JUndefined JNull
                :: jsval req_state comp) ''/simple/token_price/null''"
    using d
      C9_invalid_identifier_outcome
        [where ?'j = jsval and i = JNull and a = JUndefined
           and this = "constructor JUndefined" and params = JUndefined, OF h'' c'' c]
    by simp
  show ?thesis
    using n c d n' c' s u o g by simp
qed

section \<open>The endpoints: lists and defaults\<close>

lemma obj_get_present: "obj_get ps k = JStr v \<Longrightarrow> map_of ps k = Some (JStr v)"
  by (induction ps) (auto split: if_splits)

lemma sends_intro:
  assumes "issued c = Some opts" and "path opts = pre @ q" and "pre = ''/api/v3'' @ pth @ ''?''"
    and "query_value q k = Some v"
  shows "sends c pth k v"
proof -
  have "prefix pre (path opts) \<and> query_value (drop (length pre) (path opts)) k = Some v"
    using assms(2,4) by simp
  then show ?thesis
    unfolding sends_def assms(1) assms(3) by simp
qed

lemma sends_object:
  assumes "issued c = Some (buildRequestOptions this pth (JObj ps))"
    and "obj_get ps k = JStr v"
    and "k \<noteq> ''x_cg_pro_api_key''"
  shows "sends c pth k v"
proof -
  let ?q = "querystring_stringify (insertApiKeyIntoParams this (JObj ps))"
  have p: "path (buildRequestOptions this pth (JObj ps)) = (''/api/v3'' @ pth @ ''?'') @ ?q"
    by (simp add: path_object)
  obtain ps' where ins: "insertApiKeyIntoParams this (JObj ps) = JObj ps'"
    and get: "obj_get ps' k = JStr v"
  proof (cases "apiKey this = JNull")
    case True
    then show ?thesis using that assms(2) by (simp add: insert_no_key)
  next
    case False
    then show ?thesis
      using that[of "obj_set ps ''x_cg_pro_api_key'' (apiKey this)"] assms(2,3)
      by (simp add: insert_key obj_get_set)
  qed
  have "query_value ?q k = Some (stringifyPrimitive (JStr v))"
    unfolding ins by (rule sent_value) (simp_all add: obj_get_present[OF get] isArray_def)
  then have "query_value ?q k = Some v"
    by simp
  with assms(1) p refl show ?thesis
    by (rule sends_intro)
qed

lemma join_array_effect:
  "\<exists>ps'. join_array k (JObj ps) = ret (JObj ps')
     \<and> (\<forall>k'. obj_get ps' k'
           = (if k' = k
              then (case obj_get ps k of JArr xs \<Rightarrow> JStr (array_join xs '','') | v \<Rightarrow> v)
              else obj_get ps k'))"
proof (cases "isArray (obj_get ps k)")
  case True
  then obtain xs where xs: "obj_get ps k = JArr xs"
    by (cases "obj_get ps k") (simp_all add: isArray_def)
  show ?thesis
    by (rule exI[of _ "obj_set ps k (JStr (array_join xs '',''))"])
       (simp add: join_array_obj xs obj_get_set)
next
  case False
  show ?thesis
    using False
    by (intro exI[of _ ps]; cases "obj_get ps k") (simp_all add: join_array_obj isArray_def)
qed

lemma default_usd_effect:
  "\<exists>ps'. default_usd k (JObj ps) = ret (JObj ps')
     \<and> (\<forall>k'. obj_get ps' k'
           = (if k' = k
              then (if \<not> isString (obj_get ps k) \<or> isStringEmpty (obj_get ps k)
                    then JStr ''usd'' else obj_get ps k)
              else obj_get ps k'))"
proof (cases "\<not> isString (obj_get ps k) \<or> isStringEmpty (obj_get ps k)")
  case True
  show ?thesis
    using True
    by (intro exI[of _ "obj_set ps k (JStr ''usd'')"]) (simp add: default_usd_obj obj_get_set)
next
  case False
  show ?thesis
    using False by (intro exI[of _ ps]) (simp add: default_usd_obj)
qed


lemma default_arg_obj: "default_arg (JObj ps) d = JObj ps"
  by (simp add: default_arg_def)




text \<open>What \<open>simple.price\<close> hands to the request routine for a plain object.\<close>

lemma simple_price_params:
  obtains p3 where
    "issued (simple_price this (JObj ps) :: 'j req_state comp)
       = Some (buildRequestOptions this ''/simple/price'' (JObj p3))"
    and "obj_get p3 ''ids''
       = (case obj_get ps ''ids'' of JArr xs \<Rightarrow> JStr (array_join xs '','') | v \<Rightarrow> v)"
    and "obj_get p3 ''vs_currencies''
       = (let v = (case obj_get ps ''vs_currencies'' of
                     JArr xs \<Rightarrow> JStr (array_join xs '','') | v \<Rightarrow> v)
          in if \<not> isString v \<or> isStringEmpty v then JStr ''usd'' else v)"
proof -
  obtain p1 where j1: "join_array ''vs_currencies'' (JObj ps) = ret (JObj p1)"
    and g1: "\<And>k'. obj_get p1 k'
           = (if k' = ''vs_currencies''
              then (case obj_get ps ''vs_currencies'' of
                      JArr xs \<Rightarrow> JStr (array_join xs '','') | v \<Rightarrow> v)
              else obj_get ps k')"
    using join_array_effect[of "''vs_currencies''" ps] by blast
  obtain p2 where d: "default_usd ''vs_currencies'' (JObj p1) = ret (JObj p2)"
    and g2: "\<And>k'. obj_get p2 k'
           = (if k' = ''vs_currencies''
              then (if \<not> isString (obj_get p1 ''vs_currencies'')
                        \<or> isStringEmpty (obj_get p1 ''vs_currencies'')
                    then JStr ''usd'' else obj_get p1 ''vs_currencies'')
              else obj_get p1 k')"
    using default_usd_effect[of "''vs_currencies''" p1] by blast
  obtain p3 where j3: "join_array ''ids'' (JObj p2) = ret (JObj p3)"
    and g3: "\<And>k'. obj_get p3 k'
           = (if k' = ''ids''
              then (case obj_get p2 ''ids'' of JArr xs \<Rightarrow> JStr (array_join xs '','') | v \<Rightarrow> v)
              else obj_get p2 k')"
    using join_array_effect[of "''ids''" p2] by blast
  show ?thesis
  proof (rule that[of p3])
    show "issued (simple_price this (JObj ps) :: 'j req_state comp)
       = Some (buildRequestOptions this ''/simple/price'' (JObj p3))"
      by (simp add: simple_price_def default_arg_def j1 d j3)
    show "obj_get p3 ''ids''
       = (case obj_get ps ''ids'' of JArr xs \<Rightarrow> JStr (array_join xs '','') | v \<Rightarrow> v)"
      by (simp add: g3 g2 g1)
    show "obj_get p3 ''vs_currencies''
       = (let v = (case obj_get ps ''vs_currencies'' of
                     JArr xs \<Rightarrow> JStr (array_join xs '','') | v \<Rightarrow> v)
          in if \<not> isString v \<or> isStringEmpty v then JStr ''usd'' else v)"
      by (simp add: g3 g2 g1 Let_def)
  qed
qed



lemma simple_price_default:
  assumes "\<not> isArray (obj_get ps ''vs_currencies'')"
    and "\<not> isString (obj_get ps ''vs_currencies'') \<or> isStringEmpty (obj_get ps ''vs_currencies'')"
  shows "sends (simple_price this (JObj ps) :: 'j req_state comp) ''/simple/price'' ''vs_currencies'' ''usd''"
proof -
  obtain p3 where
    a: "issued (simple_price this (JObj ps) :: 'j req_state comp)
       = Some (buildRequestOptions this ''/simple/price'' (JObj p3))"
    and c: "obj_get p3 ''vs_currencies''
       = (let v = (case obj_get ps ''vs_currencies'' of
                     JArr xs \<Rightarrow> JStr (array_join xs '','') | v \<Rightarrow> v)
          in if \<not> isString v \<or> isStringEmpty v then JStr ''usd'' else v)"
    by (rule simple_price_params)
  have "(case obj_get ps ''vs_currencies'' of
           JArr xs \<Rightarrow> JStr (array_join xs '','') | v \<Rightarrow> v) = obj_get ps ''vs_currencies''"
    using assms(1) by (cases "obj_get ps ''vs_currencies''") (simp_all add: isArray_def)
  then have "obj_get p3 ''vs_currencies'' = JStr ''usd''"
    using c assms(2) by (simp add: Let_def)
  with a show ?thesis
    by (rule sends_object) simp
qed

lemma simple_price_omitted:
  "sends (simple_price this JUndefined :: 'j req_state comp) ''/simple/price'' ''vs_currencies'' ''usd''"
proof -
  have "(simple_price this JUndefined :: 'j req_state comp) = simple_price this (JObj [])"
    by (simp add: simple_price_def default_arg_def)
  then show ?thesis
    using simple_price_default[where ?'j = 'j, of "[]" this] by (simp add: isArray_def isString_def)
qed



lemma join_head: "prefix x (join_with sep (x # r))"
  by (cases r) simp_all

lemma join_two: "prefix (a @ sep @ b) (join_with sep (a # b # r))"
  using join_head[of b sep r] by simp

lemmas codec_defs = field_def qsEscape_def esc_byte_def unreserved_def hex_char_def

lemma bitcoin_params:
  "issued (simple_price this (JObj [(''ids'', JArr [JStr ''bitcoin''])]) :: 'j req_state comp)
   = Some (buildRequestOptions this ''/simple/price''
             (JObj [(''ids'', JStr ''bitcoin''), (''vs_currencies'', JStr ''usd'')]))"
  by (simp add: simple_price_def default_arg_obj normal_forms isString_def array_join_def
        join_elem_def)

lemma bitcoin_query:
  "prefix ''ids=bitcoin&vs_currencies=usd''
     (querystring_stringify
        (insertApiKeyIntoParams this
           (JObj [(''ids'', JStr ''bitcoin''), (''vs_currencies'', JStr ''usd'')])))"
proof (cases "apiKey this = JNull")
  case True
  then show ?thesis
    by (simp add: insert_no_key codec_defs)
next
  case False
  have f: "field ''ids'' (JStr ''bitcoin'') = ''ids=bitcoin''"
    "field ''vs_currencies'' (JStr ''usd'') = ''vs_currencies=usd''"
    by (simp_all add: codec_defs)
  have "querystring_stringify
          (insertApiKeyIntoParams this
             (JObj [(''ids'', JStr ''bitcoin''), (''vs_currencies'', JStr ''usd'')]))
        = join_with ''&'' (''ids=bitcoin'' # ''vs_currencies=usd''
                            # fields_of (''x_cg_pro_api_key'', apiKey this))"
    using False by (simp add: insert_key f)
  moreover have "prefix (''ids=bitcoin'' @ ''&'' @ ''vs_currencies=usd'')
                   (join_with ''&'' (''ids=bitcoin'' # ''vs_currencies=usd''
                            # fields_of (''x_cg_pro_api_key'', apiKey this)))"
    by (rule join_two)
  ultimately show ?thesis by simp
qed

text \<open>
  Claim C6. \<open>simple.price\<close> called with \<open>{ids: ["bitcoin"]}\<close> issues a request whose
  query string begins with \<open>ids=bitcoin&vs_currencies=usd\<close>, on every client; without
  a key that text is the whole query string. In general the currency parameter is
  sent as \<open>usd\<close> when the caller's value is not a string or is an empty one, and when
  the parameter argument is left out.
\<close>

theorem C6_price_defaults_to_usd:
  "issues_at (simple_price this (JObj [(''ids'', JArr [JStr ''bitcoin''])]) :: 'j req_state comp)
     ''/simple/price?ids=bitcoin&vs_currencies=usd''
   \<and> (apiKey this = JNull \<longrightarrow>
        map_option path
          (issued (simple_price this (JObj [(''ids'', JArr [JStr ''bitcoin''])])
                     :: 'j req_state comp))
        = Some ''/api/v3/simple/price?ids=bitcoin&vs_currencies=usd'')
   \<and> (\<not> isArray (obj_get ps ''vs_currencies'')
        \<and> (\<not> isString (obj_get ps ''vs_currencies'')
             \<or> isStringEmpty (obj_get ps ''vs_currencies''))
        \<longrightarrow> sends (simple_price this (JObj ps) :: 'j req_state comp)
              ''/simple/price'' ''vs_currencies'' ''usd'')
   \<and> sends (simple_price this JUndefined :: 'j req_state comp)
         ''/simple/price'' ''vs_currencies'' ''usd''"
proof (intro conjI impI)
  have "prefix (''/api/v3/simple/price?'' @ ''ids=bitcoin&vs_currencies=usd'')
          (''/api/v3/simple/price?''
             @ querystring_stringify
                 (insertApiKeyIntoParams this
                    (JObj [(''ids'', JStr ''bitcoin''), (''vs_currencies'', JStr ''usd'')])))"
    using bitcoin_query[of this] by (simp only: same_prefix_prefix)
  then show "issues_at (simple_price this (JObj [(''ids'', JArr [JStr ''bitcoin''])])
                :: 'j req_state comp) ''/simple/price?ids=bitcoin&vs_currencies=usd''"
    by (simp add: issues_at_def bitcoin_params path_object)
next
  assume "apiKey this = JNull"
  then show "map_option path
          (issued (simple_price this (JObj [(''ids'', JArr [JStr ''bitcoin''])])
                     :: 'j req_state comp))
        = Some ''/api/v3/simple/price?ids=bitcoin&vs_currencies=usd''"
    by (simp add: bitcoin_params path_object insert_no_key codec_defs)
next
  assume "\<not> isArray (obj_get ps ''vs_currencies'')
        \<and> (\<not> isString (obj_get ps ''vs_currencies'')
             \<or> isStringEmpty (obj_get ps ''vs_currencies''))"
  then show "sends (simple_price this (JObj ps) :: 'j req_state comp)
              ''/simple/price'' ''vs_currencies'' ''usd''"
    using simple_price_default[where ?'j = 'j, of ps this] by blast
next
  show "sends (simple_price this JUndefined :: 'j req_state comp)
         ''/simple/price'' ''vs_currencies'' ''usd''"
    by (rule simple_price_omitted)
qed

theorem C6_witness:
  "apiKey (constructor JUndefined) = JNull
   \<and> \<not> isArray (obj_get [(''ids'', JStr ''bitcoin'')] ''vs_currencies'')
   \<and> \<not> isString (obj_get [(''ids'', JStr ''bitcoin'')] ''vs_currencies'')
   \<and> map_option path
        (issued (simple_price (constructor JUndefined) (JObj [(''ids'', JArr [JStr ''bitcoin''])])
                   :: jsval req_state comp))
      = Some ''/api/v3/simple/price?ids=bitcoin&vs_currencies=usd''
   \<and> sends (simple_price (constructor JUndefined) (JObj [(''ids'', JStr ''bitcoin'')])
              :: jsval req_state comp) ''/simple/price'' ''vs_currencies'' ''usd''"
proof -
  have k: "apiKey (constructor JUndefined) = JNull"
    by (simp add: constructor_def default_arg_def)
  have a: "\<not> isArray (obj_get [(''ids'', JStr ''bitcoin'')] ''vs_currencies'')"
    and s: "\<not> isString (obj_get [(''ids'', JStr ''bitcoin'')] ''vs_currencies'')"
    by (simp_all add: isArray_def isString_def)
  show ?thesis
    using k a s
      C6_price_defaults_to_usd [where ?'j = jsval, of "constructor JUndefined"
        "[(''ids'', JStr ''bitcoin'')]"]
    by simp
qed




end
